theory Spec2Isabelle
  imports Complex_Main
begin

section \<open>The HMFI business-loan scorecard engine (src/app.py)\<close>

text \<open>
  The engine is the pure function \<open>calculate_scorecard(inputs, lookups, sector_stress)\<close>
  together with its helpers \<open>pmt\<close>, \<open>safe_divide\<close> and \<open>risk_band\<close>.

  Numbers. Every numeric input is produced by \<open>parse_optional_float\<close> and is a Python
  \<open>float\<close>, or \<open>None\<close> when the text is empty. The embedding uses \<open>real option\<close>.
  The installment computation (the monthly rate and \<open>pmt\<close>) is modelled in double
  precision: each of its float operations is the exact operation followed by rounding to
  the nearest double, because whether its divisor is zero, and whether \<open>math.pow\<close>
  overflows, depends on that rounding. The other formulas of the engine are modelled
  with exact arithmetic: there a stored value differs from the exact one by rounding
  only, so a value within a rounding error of a threshold can fall on the other side of
  it in the program. Infinities and NaN are outside the model. Every comparison, guard
  and branch of the source is kept.

  Dictionaries. \<open>inputs\<close> and \<open>lookups\<close> are dictionaries read at fixed keys only, so
  they are records with one field per key; \<open>sector_stress\<close> is read with \<open>.get\<close> at a
  key taken from the input, so it is a map.
\<close>

subsection \<open>Data model\<close>

type_synonym date = "nat \<times> nat \<times> nat"

text \<open>The dictionary returned by \<open>build_inputs_from_state\<close>.\<close>

record ApplicationInput =
  credit_officer_id :: string
  credit_officer_name :: string
  applicant_name :: string
  applicant_id :: string
  sex :: string
  age_years :: "real option"
  marital_status :: string
  literacy :: string
  repeat_borrower :: string
  loan_series :: "real option"
  prior_default :: string
  branch :: string
  application_date :: date
  requested_loan_amount :: "real option"
  monthly_installment_override :: "real option"
  term_months :: "real option"
  annual_interest_rate :: "real option"
  business_name :: string
  ownership :: string
  site_visit_assessment :: int
  sector :: string
  training_certification :: string
  is_business_seasonal :: string
  business_type :: string
  years_in_business_months :: "real option"
  character_references :: string
  loan_purpose :: string
  stability_months :: "real option"
  stated_revenue :: "real option"
  verified_revenue :: "real option"
  cogs_inventory :: "real option"
  other_monthly_income :: "real option"
  rent :: "real option"
  household_expenses :: "real option"
  utilities :: "real option"
  owner_withdrawals :: "real option"
  wages :: "real option"
  transport :: "real option"
  other_operating_costs :: "real option"
  total_capital :: "real option"
  additional_savings_equity :: "real option"
  collateral_type :: string
  collateral_insured :: string
  market_value :: "real option"

text \<open>The \<open>lookups\<close> dictionary, with the keys of \<open>DEFAULT_LOOKUP_VALUES\<close>.\<close>

record PolicyConfig =
  STRESS_FACTOR :: real
  DSCR_TARGET :: real
  CASHFLOW_DEFICIT_REPAY_SHARE_MAX :: real
  LTV_MAX_MOVABLE :: real
  LTV_MAX_IMMOVABLE :: real
  EQUITY_MIN_RATIO :: real
  DATA_VARIANCE_MAX :: real
  BUSINESS_AGE_MIN :: real
  AGE_MAX :: real
  BRANCH_APPROVAL_LIMIT_ETB :: real
  BUSINESS_LOAN_HARD_MAX_ETB :: real
  W_CHARACTER :: real
  W_CAPACITY :: real
  W_CAPITAL :: real
  W_COLLATERAL :: real
  W_CONDITION :: real

text \<open>The local dictionary \<open>flags\<close> of \<open>calculate_scorecard\<close>.\<close>

record Flags =
  Age_Flag :: bool
  CFDeficit_Flag :: bool
  Income_Var_Flag :: bool
  Equity_Flag :: bool
  Training_Flag :: bool
  LTV_Flag :: bool
  Collateral_Flag :: bool
  Branch_Limit_Flag :: bool
  Loan_Max_Flag :: bool
  Default_Flag :: bool

text \<open>The dictionary returned by \<open>calculate_scorecard\<close>.\<close>

record ScorecardResult =
  stress_factor :: "real option"
  monthly_installment_used :: "real option"
  total_operating_expenses :: "real option"
  business_surplus_unstressed :: "real option"
  business_surplus_stressed :: "real option"
  total_monthly_surplus_stressed :: "real option"
  total_monthly_surplus_unstressed :: "real option"
  stressed_dscr :: "real option"
  dscr :: "real option"
  repayment_share :: "real option"
  income_variance :: "real option"
  equity_ratio :: "real option"
  liquidity_coverage :: "real option"
  haircut :: real
  collateral_coverage :: "real option"
  ltv :: "real option"
  score_character :: real
  score_capacity :: real
  score_capital :: real
  score_collateral :: real
  score_conditions :: real
  total_score :: real
  risk_band_label :: string
  triggered_flags :: "string list"
  recommendation :: string

text \<open>The exceptions that the arithmetic of the engine can raise.\<close>

datatype error = ZeroDivisionError | ValueError | OverflowError


subsection \<open>Constants\<close>

definition DEFAULT_LOOKUP_VALUES :: PolicyConfig where
  "DEFAULT_LOOKUP_VALUES =
     \<lparr> STRESS_FACTOR = 85 / 100,
       DSCR_TARGET = 13 / 10,
       CASHFLOW_DEFICIT_REPAY_SHARE_MAX = 5 / 10,
       LTV_MAX_MOVABLE = 125 / 100,
       LTV_MAX_IMMOVABLE = 11 / 10,
       EQUITY_MIN_RATIO = 1 / 10,
       DATA_VARIANCE_MAX = 2 / 10,
       BUSINESS_AGE_MIN = 6,
       AGE_MAX = 99,
       BRANCH_APPROVAL_LIMIT_ETB = 50000,
       BUSINESS_LOAN_HARD_MAX_ETB = 3000000,
       W_CHARACTER = 30,
       W_CAPACITY = 39,
       W_CAPITAL = 10,
       W_COLLATERAL = 10,
       W_CONDITION = 10 \<rparr>"

definition DEFAULT_SECTOR_STRESS :: "string \<rightharpoonup> real" where
  "DEFAULT_SECTOR_STRESS =
     [''Trade'' \<mapsto> 85 / 100,
      ''Service'' \<mapsto> 8 / 10,
      ''Manufacturing'' \<mapsto> 7 / 10,
      ''Agriculture'' \<mapsto> 6 / 10,
      ''Other'' \<mapsto> 55 / 100]"

definition RISK_BANDS :: "(real \<times> string) list" where
  "RISK_BANDS =
     [(85, ''Very Low Risk''),
      (70, ''Low Risk''),
      (55, ''Moderate Risk''),
      (40, ''High Risk''),
      (1, ''Very High Risk'')]"

text \<open>
  The two recommendation strings with an en dash (U+2013), as the bytes of their UTF-8
  encoding.
\<close>

definition REFER_HEAD_OFFICE :: string where
  "REFER_HEAD_OFFICE = ''REFER '' @ [CHR 0xE2, CHR 0x80, CHR 0x93] @ '' HEAD OFFICE''"

definition APPROVE_WITH_CONDITIONS :: string where
  "APPROVE_WITH_CONDITIONS =
     ''APPROVE WITH CONDITIONS '' @ [CHR 0xE2, CHR 0x80, CHR 0x93] @ '' BRANCH MANAGER''"

subsection \<open>Helpers: \<open>math.pow\<close>, \<open>pmt\<close>, \<open>safe_divide\<close>, \<open>risk_band\<close>\<close>

text \<open>
  Rounding to the nearest double, ties to even: below \<open>y\<close> and above \<open>y\<close> the
  nearest integers, the even one at a tie.
\<close>

definition round_half_even :: "real \<Rightarrow> int" where
  "round_half_even y =
     (let f = \<lfloor>y\<rfloor> in
      if y - of_int f < 1 / 2 then f
      else if 1 / 2 < y - of_int f then f + 1
      else if even f then f
      else f + 1)"

text \<open>
  A double has 53 significant bits: in the binade \<open>2^e \<le> |x| < 2^(e+1)\<close> the doubles
  are the multiples of \<open>2^(e-52)\<close>, and below \<open>2^(-1022)\<close> the multiples of
  \<open>2^(-1074)\<close>. \<open>round_double\<close> is the value a float operation stores for the exact
  result \<open>x\<close>, as long as that result is within the range of the doubles.
\<close>

definition round_double :: "real \<Rightarrow> real" where
  "round_double x =
     (if x = 0 then 0
      else
        (let q = 2 powi (max (\<lfloor>log 2 \<bar>x\<bar>\<rfloor> - 52) (- 1074))
         in of_int (round_half_even (x / q)) * q))"

text \<open>
  The least magnitude that rounds beyond the largest double, \<open>(2 - 2^(-52)) \<cdot> 2^1023\<close>.
\<close>

definition DBL_OVERFLOW :: real where
  "DBL_OVERFLOW = (2 - 1 / 2 ^ 53) * 2 ^ 1023"

text \<open>
  \<open>math.pow(x, y)\<close> of the Python standard library on finite arguments:
  \<open>pow(x, 0.0)\<close> is \<open>1.0\<close> for every \<open>x\<close>; a zero base with a negative exponent and
  a negative base with a non-integral exponent raise \<open>ValueError\<close>; a result beyond the
  range of the doubles raises \<open>OverflowError\<close>; otherwise the result is the power,
  rounded.
\<close>

definition pow_result :: "real \<Rightarrow> error + real" where
  "pow_result p =
     (if DBL_OVERFLOW \<le> \<bar>p\<bar> then Inl OverflowError else Inr (round_double p))"

definition math_pow :: "real \<Rightarrow> real \<Rightarrow> error + real" where
  "math_pow x y =
     (if y = 0 then Inr 1
      else if x = 0 then (if y < 0 then Inl ValueError else Inr 0)
      else if 0 < x then pow_result (x powr y)
      else if of_int \<lfloor>y\<rfloor> = y then pow_result (x powi \<lfloor>y\<rfloor>)
      else Inl ValueError)"

text \<open>
  \<open>pmt\<close>: the sum \<open>1 + rate\<close>, the difference \<open>1 - math.pow(...)\<close>, the product and
  the quotients are float operations; the final division raises \<open>ZeroDivisionError\<close>
  when the divisor is zero.
\<close>

definition pmt :: "real \<Rightarrow> real \<Rightarrow> real \<Rightarrow> error + real option" where
  "pmt rate periods present_value =
     (if rate = 0 then
        (if periods = 0 then Inr None
         else Inr (Some (round_double (present_value / periods))))
      else if periods = 0 then Inr None
      else
        (case math_pow (round_double (1 + rate)) (- periods) of
           Inl e \<Rightarrow> Inl e
         | Inr w \<Rightarrow>
             if round_double (1 - w) = 0 then Inl ZeroDivisionError
             else Inr (Some (round_double
                               (round_double (rate * present_value)
                                / round_double (1 - w))))))"

definition safe_divide :: "real option \<Rightarrow> real option \<Rightarrow> real option" where
  "safe_divide numerator denominator =
     (if numerator = None \<or> denominator = None \<or> denominator = Some 0 then None
      else Some (the numerator / the denominator))"

text \<open>The \<open>for\<close> loop of \<open>risk_band\<close> over the table, with the fall-through value.\<close>

fun risk_band_scan :: "(real \<times> string) list \<Rightarrow> real \<Rightarrow> string" where
  "risk_band_scan [] score = ''Very High Risk''"
| "risk_band_scan ((threshold, band) # rest) score =
     (if score \<ge> threshold then band else risk_band_scan rest score)"

definition risk_band :: "real \<Rightarrow> string" where
  "risk_band score = risk_band_scan RISK_BANDS score"

subsection \<open>\<open>calculate_scorecard\<close>: derived metrics\<close>

text \<open>
  Each local variable of \<open>calculate_scorecard\<close> is a function of the same name with the
  prefix \<open>calc_\<close>. The installment is the only value whose computation can raise; the
  values computed after it take it as the argument \<open>m\<close>.
\<close>

definition calc_stress_factor :: "ApplicationInput \<Rightarrow> (string \<rightharpoonup> real) \<Rightarrow> real option" where
  "calc_stress_factor inputs sector_stress_map =
     (if sector inputs \<noteq> [] then sector_stress_map (sector inputs) else None)"

definition calc_monthly_installment_used :: "ApplicationInput \<Rightarrow> error + real option" where
  "calc_monthly_installment_used inputs =
     (if monthly_installment_override inputs = None then
        (if requested_loan_amount inputs \<noteq> None
            \<and> term_months inputs \<noteq> None
            \<and> annual_interest_rate inputs \<noteq> None
         then
           (let monthly_rate =
                  round_double (round_double (the (annual_interest_rate inputs) / 100) / 12)
            in pmt monthly_rate (the (term_months inputs)) (the (requested_loan_amount inputs)))
         else Inr None)
      else Inr (monthly_installment_override inputs))"

definition calc_total_operating_expenses :: "ApplicationInput \<Rightarrow> real option" where
  "calc_total_operating_expenses inputs =
     (if rent inputs \<noteq> None \<and> utilities inputs \<noteq> None \<and> wages inputs \<noteq> None
         \<and> transport inputs \<noteq> None \<and> other_operating_costs inputs \<noteq> None
      then Some (the (rent inputs) + the (utilities inputs) + the (wages inputs)
                 + the (transport inputs) + the (other_operating_costs inputs))
      else None)"

definition calc_business_surplus_unstressed :: "ApplicationInput \<Rightarrow> real option" where
  "calc_business_surplus_unstressed inputs =
     (if verified_revenue inputs \<noteq> None \<and> cogs_inventory inputs \<noteq> None
         \<and> calc_total_operating_expenses inputs \<noteq> None
      then Some (the (verified_revenue inputs) - the (cogs_inventory inputs)
                 - the (calc_total_operating_expenses inputs))
      else None)"

definition calc_business_surplus_stressed ::
  "ApplicationInput \<Rightarrow> (string \<rightharpoonup> real) \<Rightarrow> real option" where
  "calc_business_surplus_stressed inputs sector_stress_map =
     (if calc_business_surplus_unstressed inputs \<noteq> None
         \<and> calc_stress_factor inputs sector_stress_map \<noteq> None
      then Some (the (calc_business_surplus_unstressed inputs)
                 * the (calc_stress_factor inputs sector_stress_map))
      else None)"

definition calc_total_monthly_surplus_stressed ::
  "ApplicationInput \<Rightarrow> (string \<rightharpoonup> real) \<Rightarrow> real option" where
  "calc_total_monthly_surplus_stressed inputs sector_stress_map =
     (if calc_business_surplus_stressed inputs sector_stress_map \<noteq> None
         \<and> other_monthly_income inputs \<noteq> None
         \<and> household_expenses inputs \<noteq> None
         \<and> owner_withdrawals inputs \<noteq> None
      then Some (the (calc_business_surplus_stressed inputs sector_stress_map)
                 + the (other_monthly_income inputs)
                 - the (household_expenses inputs)
                 - the (owner_withdrawals inputs))
      else None)"

definition calc_total_monthly_surplus_unstressed :: "ApplicationInput \<Rightarrow> real option" where
  "calc_total_monthly_surplus_unstressed inputs =
     (if calc_business_surplus_unstressed inputs \<noteq> None
         \<and> other_monthly_income inputs \<noteq> None
         \<and> household_expenses inputs \<noteq> None
         \<and> owner_withdrawals inputs \<noteq> None
      then Some (the (calc_business_surplus_unstressed inputs)
                 + the (other_monthly_income inputs)
                 - the (household_expenses inputs)
                 - the (owner_withdrawals inputs))
      else None)"

definition calc_stressed_dscr ::
  "real option \<Rightarrow> ApplicationInput \<Rightarrow> (string \<rightharpoonup> real) \<Rightarrow> real option" where
  "calc_stressed_dscr m inputs sector_stress_map =
     safe_divide (calc_total_monthly_surplus_stressed inputs sector_stress_map) m"

definition calc_dscr :: "real option \<Rightarrow> ApplicationInput \<Rightarrow> real option" where
  "calc_dscr m inputs = safe_divide (calc_business_surplus_unstressed inputs) m"

definition calc_repayment_share :: "real option \<Rightarrow> ApplicationInput \<Rightarrow> real option" where
  "calc_repayment_share m inputs =
     (if m \<noteq> None \<and> calc_total_monthly_surplus_unstressed inputs \<noteq> None then
        (if the (calc_total_monthly_surplus_unstressed inputs) \<le> 0 then Some 1
         else Some (the m / the (calc_total_monthly_surplus_unstressed inputs)))
      else None)"

definition calc_income_variance :: "ApplicationInput \<Rightarrow> real option" where
  "calc_income_variance inputs =
     (if stated_revenue inputs \<noteq> None
         \<and> verified_revenue inputs \<notin> set [None, Some 0]
      then Some (\<bar>the (stated_revenue inputs) - the (verified_revenue inputs)\<bar>
                 / the (verified_revenue inputs))
      else None)"

definition calc_equity_ratio :: "ApplicationInput \<Rightarrow> real option" where
  "calc_equity_ratio inputs =
     (if (requested_loan_amount inputs \<noteq> None \<and> total_capital inputs \<noteq> None
          \<and> additional_savings_equity inputs \<noteq> None)
         \<and> requested_loan_amount inputs \<noteq> Some 0
      then Some ((the (total_capital inputs) + the (additional_savings_equity inputs))
                 / the (requested_loan_amount inputs))
      else None)"

definition calc_liquidity_coverage :: "real option \<Rightarrow> ApplicationInput \<Rightarrow> real option" where
  "calc_liquidity_coverage m inputs =
     (if additional_savings_equity inputs \<noteq> None
         \<and> calc_total_operating_expenses inputs \<noteq> None
         \<and> cogs_inventory inputs \<noteq> None
         \<and> m \<noteq> None
         \<and> owner_withdrawals inputs \<noteq> None
      then
        (let denominator = the (cogs_inventory inputs)
                           + the (calc_total_operating_expenses inputs)
                           + the m
                           + the (owner_withdrawals inputs)
         in safe_divide (additional_savings_equity inputs) (Some denominator))
      else None)"

definition calc_haircut :: "ApplicationInput \<Rightarrow> real" where
  "calc_haircut inputs =
     (if collateral_type inputs = ''Movable'' then 5 / 10
      else if collateral_type inputs = ''Immovable'' then 3 / 10
      else 0)"

definition calc_ltv :: "ApplicationInput \<Rightarrow> real option" where
  "calc_ltv inputs =
     (if (requested_loan_amount inputs \<noteq> None \<and> market_value inputs \<noteq> None)
         \<and> collateral_type inputs \<noteq> []
      then
        (if collateral_type inputs = ''None'' then Some 99
         else
           (let net_collateral = the (market_value inputs) * (1 - calc_haircut inputs)
            in safe_divide (requested_loan_amount inputs) (Some net_collateral)))
      else None)"

definition calc_collateral_coverage :: "ApplicationInput \<Rightarrow> real option" where
  "calc_collateral_coverage inputs = safe_divide (Some 1) (calc_ltv inputs)"

subsection \<open>\<open>calculate_scorecard\<close>: category scores\<close>

definition calc_score_character :: "ApplicationInput \<Rightarrow> PolicyConfig \<Rightarrow> real" where
  "calc_score_character inputs lookups =
     min (W_CHARACTER lookups)
       ((if training_certification inputs = ''Yes'' then 5 else 0)
        + (if sex inputs = ''F'' then 3 else 0)
        + (if years_in_business_months inputs \<noteq> None then
             (if the (years_in_business_months inputs) \<ge> 36 then 12
              else if the (years_in_business_months inputs) \<ge> 24 then 10
              else if the (years_in_business_months inputs) \<ge> 12 then 6
              else 0)
           else 0)
        + (if character_references inputs = ''Good'' then 5
           else if character_references inputs = ''Average'' then 2
           else 0)
        + (if age_years inputs \<noteq> None \<and> the (age_years inputs) \<ge> 40 then 2 else 0)
        + (if marital_status inputs = ''Married'' then 1 else 0)
        + (if repeat_borrower inputs = ''Yes'' then 3 else 0)
        + (if repeat_borrower inputs = ''Yes'' \<and> loan_series inputs \<noteq> None
              \<and> the (loan_series inputs) \<ge> 3
           then 5 else 0))"

definition calc_score_capacity :: "real option \<Rightarrow> PolicyConfig \<Rightarrow> real" where
  "calc_score_capacity stressed_dscr_v lookups =
     min (W_CAPACITY lookups)
       (if stressed_dscr_v = None then 0
        else if the stressed_dscr_v \<ge> 15 / 10 then 34
        else if the stressed_dscr_v \<ge> DSCR_TARGET lookups then 28
        else if the stressed_dscr_v \<ge> 11 / 10 then 18
        else if the stressed_dscr_v \<ge> 9 / 10 then 8
        else 0)"

definition calc_score_capital :: "ApplicationInput \<Rightarrow> PolicyConfig \<Rightarrow> real" where
  "calc_score_capital inputs lookups =
     min (W_CAPITAL lookups)
       (if calc_equity_ratio inputs = None then 0
        else if the (calc_equity_ratio inputs) \<ge> 2 / 10 then 15
        else if the (calc_equity_ratio inputs) \<ge> 15 / 100 then 12
        else if the (calc_equity_ratio inputs) \<ge> EQUITY_MIN_RATIO lookups then 8
        else if the (calc_equity_ratio inputs) \<ge> 5 / 100 then 3
        else 0)"

definition calc_score_collateral :: "ApplicationInput \<Rightarrow> PolicyConfig \<Rightarrow> real" where
  "calc_score_collateral inputs lookups =
     min (W_COLLATERAL lookups)
       (if collateral_type inputs = ''None'' then 0
        else
          (if calc_ltv inputs = None then 0
           else if (collateral_type inputs = ''Movable'' \<and> the (calc_ltv inputs) \<le> 1)
                   \<or> (collateral_type inputs = ''Immovable'' \<and> the (calc_ltv inputs) \<le> 1)
           then 10
           else if (collateral_type inputs = ''Movable''
                      \<and> the (calc_ltv inputs) \<le> LTV_MAX_MOVABLE lookups)
                   \<or> (collateral_type inputs = ''Immovable''
                      \<and> the (calc_ltv inputs) \<le> LTV_MAX_IMMOVABLE lookups)
           then 6
           else 0)
          - (if collateral_insured inputs = ''No'' then 2 else 0))"

text \<open>The dictionary literal read with \<open>.get(sector, 0)\<close>.\<close>

definition sector_score :: "string \<Rightarrow> real" where
  "sector_score s =
     (case [''Trade'' \<mapsto> 3, ''Service'' \<mapsto> 2, ''Agriculture'' \<mapsto> 1,
            ''Manufacturing'' \<mapsto> 1, ''Other'' \<mapsto> (0::real)] s of
        Some v \<Rightarrow> v
      | None \<Rightarrow> 0)"

definition calc_score_conditions :: "ApplicationInput \<Rightarrow> PolicyConfig \<Rightarrow> real" where
  "calc_score_conditions inputs lookups =
     min (W_CONDITION lookups)
       ((if site_visit_assessment inputs \<ge> 4 then 5
         else if site_visit_assessment inputs = 3 then 3
         else 0)
        + (if is_business_seasonal inputs = ''No'' then 2 else 0)
        + (if years_in_business_months inputs \<noteq> None
              \<and> stability_months inputs \<noteq> None
              \<and> stability_months inputs = years_in_business_months inputs
              \<and> the (years_in_business_months inputs) \<ge> 6
           then 2 else 0)
        + sector_score (sector inputs))"

definition calc_total_score ::
  "real option \<Rightarrow> ApplicationInput \<Rightarrow> PolicyConfig \<Rightarrow> (string \<rightharpoonup> real) \<Rightarrow> real" where
  "calc_total_score m inputs lookups sector_stress_map =
     max 1 (min 99
       (calc_score_character inputs lookups
        + calc_score_capacity (calc_stressed_dscr m inputs sector_stress_map) lookups
        + calc_score_capital inputs lookups
        + calc_score_collateral inputs lookups
        + calc_score_conditions inputs lookups))"

subsection \<open>\<open>calculate_scorecard\<close>: flags, messages and recommendation\<close>

definition calc_flags :: "real option \<Rightarrow> ApplicationInput \<Rightarrow> PolicyConfig \<Rightarrow> Flags" where
  "calc_flags m inputs lookups =
     \<lparr> Age_Flag =
         (years_in_business_months inputs = None
          \<or> the (years_in_business_months inputs) < BUSINESS_AGE_MIN lookups),
       CFDeficit_Flag =
         (calc_total_monthly_surplus_unstressed inputs \<noteq> None
          \<and> m \<noteq> None
          \<and> (the (calc_total_monthly_surplus_unstressed inputs) \<le> 0
              \<or> (calc_repayment_share m inputs \<noteq> None
                  \<and> the (calc_repayment_share m inputs)
                      > CASHFLOW_DEFICIT_REPAY_SHARE_MAX lookups))),
       Income_Var_Flag =
         (calc_income_variance inputs \<noteq> None
          \<and> the (calc_income_variance inputs) > DATA_VARIANCE_MAX lookups),
       Equity_Flag =
         (calc_equity_ratio inputs \<noteq> None
          \<and> the (calc_equity_ratio inputs) < EQUITY_MIN_RATIO lookups),
       Training_Flag = (training_certification inputs = ''No''),
       LTV_Flag =
         (calc_ltv inputs \<noteq> None
          \<and> ((collateral_type inputs = ''Movable''
                \<and> the (calc_ltv inputs) > LTV_MAX_MOVABLE lookups)
              \<or> (collateral_type inputs = ''Immovable''
                  \<and> the (calc_ltv inputs) > LTV_MAX_IMMOVABLE lookups))),
       Collateral_Flag =
         (collateral_type inputs \<noteq> []
          \<and> collateral_insured inputs \<noteq> []
          \<and> (collateral_insured inputs = ''No'' \<or> collateral_type inputs = ''None'')),
       Branch_Limit_Flag =
         (requested_loan_amount inputs \<noteq> None
          \<and> the (requested_loan_amount inputs) > BRANCH_APPROVAL_LIMIT_ETB lookups),
       Loan_Max_Flag =
         (requested_loan_amount inputs \<noteq> None
          \<and> the (requested_loan_amount inputs) > BUSINESS_LOAN_HARD_MAX_ETB lookups),
       Default_Flag = (prior_default inputs = ''Yes'') \<rparr>"

definition calc_triggered_flags :: "Flags \<Rightarrow> ApplicationInput \<Rightarrow> string list" where
  "calc_triggered_flags flags inputs =
     (if Age_Flag flags then [''REJECT: Business less than 6 months''] else [])
     @ (if CFDeficit_Flag flags
        then [''REJECT: Cash flow deficit (repayment >50% of surplus)''] else [])
     @ (if Income_Var_Flag flags
        then [''REJECT: Data inconsistency (>20% variance)''] else [])
     @ (if Default_Flag flags then [''REJECT: Prior default with HMFI''] else [])
     @ (if Loan_Max_Flag flags then [''REJECT: Above hard max loan amount''] else [])
     @ (if Equity_Flag flags then [''REFER: Equity <10% of loan''] else [])
     @ (if Training_Flag flags then [''REFER: No training/certification''] else [])
     @ (if LTV_Flag flags then [''REFER: Collateral shortfall (LTV too high)''] else [])
     @ (if Collateral_Flag flags then [''REFER: Collateral not insured''] else [])
     @ (if Branch_Limit_Flag flags then [''REFER: Above branch approval limit''] else [])
     @ (if collateral_type inputs = ''None'' then [''REJECT: No Collateral''] else [])"

definition calc_recommendation :: "Flags \<Rightarrow> ApplicationInput \<Rightarrow> real \<Rightarrow> string" where
  "calc_recommendation flags inputs total_score_v =
     (if Age_Flag flags \<or> CFDeficit_Flag flags \<or> Income_Var_Flag flags
         \<or> Default_Flag flags \<or> Loan_Max_Flag flags
         \<or> collateral_type inputs = ''None''
      then ''REJECT''
      else if total_score_v \<le> 54 then ''REJECT''
      else if Branch_Limit_Flag flags \<or> LTV_Flag flags \<or> Collateral_Flag flags
      then REFER_HEAD_OFFICE
      else if total_score_v \<le> 69 \<or> Equity_Flag flags \<or> Training_Flag flags
      then APPROVE_WITH_CONDITIONS
      else ''APPROVE'')"

subsection \<open>\<open>calculate_scorecard\<close>\<close>

text \<open>
  The result dictionary, given the installment. Every statement of the source after the
  call of \<open>pmt\<close> is a comparison, an addition, a multiplication or a guarded division, so
  nothing here can raise.
\<close>

definition scorecard_result ::
  "real option \<Rightarrow> ApplicationInput \<Rightarrow> PolicyConfig \<Rightarrow> (string \<rightharpoonup> real) \<Rightarrow> ScorecardResult" where
  "scorecard_result m inputs lookups sector_stress_map =
     \<lparr> stress_factor = calc_stress_factor inputs sector_stress_map,
       monthly_installment_used = m,
       total_operating_expenses = calc_total_operating_expenses inputs,
       business_surplus_unstressed = calc_business_surplus_unstressed inputs,
       business_surplus_stressed = calc_business_surplus_stressed inputs sector_stress_map,
       total_monthly_surplus_stressed =
         calc_total_monthly_surplus_stressed inputs sector_stress_map,
       total_monthly_surplus_unstressed = calc_total_monthly_surplus_unstressed inputs,
       stressed_dscr = calc_stressed_dscr m inputs sector_stress_map,
       dscr = calc_dscr m inputs,
       repayment_share = calc_repayment_share m inputs,
       income_variance = calc_income_variance inputs,
       equity_ratio = calc_equity_ratio inputs,
       liquidity_coverage = calc_liquidity_coverage m inputs,
       haircut = calc_haircut inputs,
       collateral_coverage = calc_collateral_coverage inputs,
       ltv = calc_ltv inputs,
       score_character = calc_score_character inputs lookups,
       score_capacity =
         calc_score_capacity (calc_stressed_dscr m inputs sector_stress_map) lookups,
       score_capital = calc_score_capital inputs lookups,
       score_collateral = calc_score_collateral inputs lookups,
       score_conditions = calc_score_conditions inputs lookups,
       total_score = calc_total_score m inputs lookups sector_stress_map,
       risk_band_label = risk_band (calc_total_score m inputs lookups sector_stress_map),
       triggered_flags = calc_triggered_flags (calc_flags m inputs lookups) inputs,
       recommendation =
         calc_recommendation (calc_flags m inputs lookups) inputs
           (calc_total_score m inputs lookups sector_stress_map) \<rparr>"

text \<open>
  \<open>calculate_scorecard\<close>: an exception raised by \<open>pmt\<close> propagates to the caller
  (\<open>Inl\<close>); otherwise the result dictionary is returned (\<open>Inr\<close>).
\<close>

definition calculate_scorecard ::
  "ApplicationInput \<Rightarrow> PolicyConfig \<Rightarrow> (string \<rightharpoonup> real) \<Rightarrow> error + ScorecardResult" where
  "calculate_scorecard inputs lookups sector_stress_map =
     (case calc_monthly_installment_used inputs of
        Inl e \<Rightarrow> Inl e
      | Inr m \<Rightarrow> Inr (scorecard_result m inputs lookups sector_stress_map))"

text \<open>
  The flags of an evaluation: the local dictionary \<open>flags\<close> is not part of the returned
  dictionary, so it is exposed by a function of its own, with the same error behaviour.
\<close>

definition scorecard_flags :: "ApplicationInput \<Rightarrow> PolicyConfig \<Rightarrow> error + Flags" where
  "scorecard_flags inputs lookups =
     (case calc_monthly_installment_used inputs of
        Inl e \<Rightarrow> Inl e
      | Inr m \<Rightarrow> Inr (calc_flags m inputs lookups))"

subsection \<open>The baseline application\<close>

text \<open>
  \<open>CUSTOMER_INPUT_DEFAULTS\<close> as \<open>build_inputs_from_state\<close> parses it (numeric text to
  float, \<open>loan_series\<close> \<open>"2"\<close> to \<open>2.0\<close>), for an application date \<open>d\<close>. It is
  Scenario A of the specification; the fields that the scenario leaves open (sex, loan
  series, stated revenue and the descriptive fields) have the values of the source table.
\<close>

definition scenario_A :: "date \<Rightarrow> ApplicationInput" where
  "scenario_A d =
     \<lparr> credit_officer_id = ''CO-001'',
       credit_officer_name = ''Sample Officer'',
       applicant_name = ''Sample Applicant'',
       applicant_id = ''APP-0001'',
       sex = ''M'',
       age_years = Some 35,
       marital_status = ''Married'',
       literacy = ''Secondary/High School'',
       repeat_borrower = ''No'',
       loan_series = Some 2,
       prior_default = ''No'',
       branch = ''Head Office'',
       application_date = d,
       requested_loan_amount = Some 50000,
       monthly_installment_override = Some 4584,
       term_months = Some 12,
       annual_interest_rate = Some 18,
       business_name = ''Sample Business'',
       ownership = ''Sole Proprietor'',
       site_visit_assessment = 3,
       sector = ''Trade'',
       training_certification = ''Yes'',
       is_business_seasonal = ''No'',
       business_type = ''Retail / Trading'',
       years_in_business_months = Some 24,
       character_references = ''Good'',
       loan_purpose = ''Working Capital'',
       stability_months = Some 24,
       stated_revenue = Some 30000,
       verified_revenue = Some 28000,
       cogs_inventory = Some 12000,
       other_monthly_income = Some 2000,
       rent = Some 3000,
       household_expenses = Some 5000,
       utilities = Some 800,
       owner_withdrawals = Some 1500,
       wages = Some 2500,
       transport = Some 700,
       other_operating_costs = Some 1000,
       total_capital = Some 20000,
       additional_savings_equity = Some 10000,
       collateral_type = ''Movable'',
       collateral_insured = ''Yes'',
       market_value = Some 150000 \<rparr>"

subsection \<open>Notions used by the properties\<close>

text \<open>
  The order of the five band labels by risk: a larger number is a riskier label.
\<close>

definition risk_level :: "string \<Rightarrow> nat" where
  "risk_level band =
     (if band = ''Very High Risk'' then 4
      else if band = ''High Risk'' then 3
      else if band = ''Moderate Risk'' then 2
      else if band = ''Low Risk'' then 1
      else 0)"

text \<open>
  Two applications agree on every key that is not one of \<open>credit_officer_id\<close>,
  \<open>credit_officer_name\<close>, \<open>applicant_name\<close>, \<open>applicant_id\<close>, \<open>branch\<close>,
  \<open>literacy\<close>, \<open>business_name\<close>, \<open>business_type\<close>, \<open>ownership\<close>,
  \<open>loan_purpose\<close> and \<open>application_date\<close>.
\<close>

definition agree_off_opaque :: "ApplicationInput \<Rightarrow> ApplicationInput \<Rightarrow> bool" where
  "agree_off_opaque i j \<longleftrightarrow>
     sex i = sex j
     \<and> age_years i = age_years j
     \<and> marital_status i = marital_status j
     \<and> repeat_borrower i = repeat_borrower j
     \<and> loan_series i = loan_series j
     \<and> prior_default i = prior_default j
     \<and> requested_loan_amount i = requested_loan_amount j
     \<and> monthly_installment_override i = monthly_installment_override j
     \<and> term_months i = term_months j
     \<and> annual_interest_rate i = annual_interest_rate j
     \<and> site_visit_assessment i = site_visit_assessment j
     \<and> sector i = sector j
     \<and> training_certification i = training_certification j
     \<and> is_business_seasonal i = is_business_seasonal j
     \<and> years_in_business_months i = years_in_business_months j
     \<and> character_references i = character_references j
     \<and> stability_months i = stability_months j
     \<and> stated_revenue i = stated_revenue j
     \<and> verified_revenue i = verified_revenue j
     \<and> cogs_inventory i = cogs_inventory j
     \<and> other_monthly_income i = other_monthly_income j
     \<and> rent i = rent j
     \<and> household_expenses i = household_expenses j
     \<and> utilities i = utilities j
     \<and> owner_withdrawals i = owner_withdrawals j
     \<and> wages i = wages j
     \<and> transport i = transport j
     \<and> other_operating_costs i = other_operating_costs j
     \<and> total_capital i = total_capital j
     \<and> additional_savings_equity i = additional_savings_equity j
     \<and> collateral_type i = collateral_type j
     \<and> collateral_insured i = collateral_insured j
     \<and> market_value i = market_value j"

subsection \<open>Example applications\<close>

text \<open>
  Variants of the baseline application, each a dictionary that
  \<open>build_inputs_from_state\<close> can produce (every numeric field is typed by the officer
  as free text and checked only for being a number).
\<close>

definition baseline :: ApplicationInput where
  "baseline = scenario_A (2024, 1, 15)"

text \<open>Uninsured movable collateral worth 30000: the net value 15000 is below the loan.\<close>

definition uninsured_shortfall :: ApplicationInput where
  "uninsured_shortfall =
     baseline\<lparr> collateral_insured := ''No'', market_value := Some 30000 \<rparr>"

text \<open>Scenario B of the specification: the baseline with collateral type \<open>"None"\<close>.\<close>

definition scenario_B :: ApplicationInput where
  "scenario_B = baseline\<lparr> collateral_type := ''None'' \<rparr>"

text \<open>No collateral and, as the form allows for that type, no market value.\<close>

definition no_collateral_unvalued :: ApplicationInput where
  "no_collateral_unvalued =
     baseline\<lparr> collateral_type := ''None'', market_value := None \<rparr>"

text \<open>No installment override and no term: no installment can be computed.\<close>

definition no_term :: ApplicationInput where
  "no_term = baseline\<lparr> monthly_installment_override := None, term_months := None \<rparr>"

text \<open>An annual rate of -2400 percent over two months: the monthly rate is -2.\<close>

definition rate_minus_2400 :: ApplicationInput where
  "rate_minus_2400 =
     baseline\<lparr> monthly_installment_override := None,
               term_months := Some 2,
               annual_interest_rate := Some (- 2400) \<rparr>"

text \<open>An annual rate of -1200 percent: the monthly rate is -1.\<close>

definition rate_minus_1200 :: ApplicationInput where
  "rate_minus_1200 =
     baseline\<lparr> monthly_installment_override := None,
               annual_interest_rate := Some (- 1200) \<rparr>"

text \<open>
  An annual rate of \<open>1200 \<cdot> 2^(-60)\<close> percent, about \<open>1.04e-15\<close>: it is a double, both
  divisions of the monthly rate are exact, and the monthly rate is \<open>2^(-60)\<close>.
\<close>

definition tiny_rate :: ApplicationInput where
  "tiny_rate =
     baseline\<lparr> monthly_installment_override := None,
               annual_interest_rate := Some (1200 / 2 ^ 60) \<rparr>"

text \<open>Household expenses of 10000: the unstressed total surplus is -1500.\<close>

definition household_deficit :: ApplicationInput where
  "household_deficit = baseline\<lparr> household_expenses := Some 10000 \<rparr>"

text \<open>A request of 60000, above the default branch limit and below the hard maximum.\<close>

definition above_branch_limit :: ApplicationInput where
  "above_branch_limit = baseline\<lparr> requested_loan_amount := Some 60000 \<rparr>"

text \<open>The baseline without a requested amount, and with a request at the hard maximum.\<close>

definition no_amount :: ApplicationInput where
  "no_amount = baseline\<lparr> requested_loan_amount := None \<rparr>"

definition at_hard_max :: ApplicationInput where
  "at_hard_max = baseline\<lparr> requested_loan_amount := Some 3000000 \<rparr>"

text \<open>The baseline entered by another officer for another applicant on another day.\<close>

definition relabelled :: ApplicationInput where
  "relabelled =
     baseline\<lparr> credit_officer_id := ''CO-777'',
               credit_officer_name := ''Second Officer'',
               applicant_name := ''Another Applicant'',
               applicant_id := ''APP-9999'',
               branch := ''Hakim'',
               literacy := ''Primary'',
               business_name := ''Another Business'',
               business_type := ''Services'',
               ownership := ''Partnership'',
               loan_purpose := ''Asset Purchase'',
               application_date := (2025, 6, 30) \<rparr>"

section \<open>Basic facts\<close>

subsection \<open>The shape of a result\<close>

lemma calculate_scorecard_Inr:
  "calculate_scorecard i l s = Inr r \<longleftrightarrow>
     (\<exists>m. calc_monthly_installment_used i = Inr m \<and> r = scorecard_result m i l s)"
  by (auto simp add: calculate_scorecard_def split: sum.splits)

lemma calculate_scorecard_returns:
  "calc_monthly_installment_used i = Inr m \<Longrightarrow>
     calculate_scorecard i l s = Inr (scorecard_result m i l s)"
  by (simp add: calculate_scorecard_def)

lemma calculate_scorecard_raises:
  "calc_monthly_installment_used i = Inl e \<Longrightarrow> calculate_scorecard i l s = Inl e"
  by (simp add: calculate_scorecard_def)

lemma scorecard_flags_Inr:
  "scorecard_flags i l = Inr f \<longleftrightarrow>
     (\<exists>m. calc_monthly_installment_used i = Inr m \<and> f = calc_flags m i l)"
  by (auto simp add: scorecard_flags_def split: sum.splits)

lemma scorecard_flags_returns:
  "calc_monthly_installment_used i = Inr m \<Longrightarrow> scorecard_flags i l = Inr (calc_flags m i l)"
  by (simp add: scorecard_flags_def)

lemma scorecard_result_fields:
  "stress_factor (scorecard_result m i l s) = calc_stress_factor i s"
  "monthly_installment_used (scorecard_result m i l s) = m"
  "total_operating_expenses (scorecard_result m i l s) = calc_total_operating_expenses i"
  "business_surplus_unstressed (scorecard_result m i l s) = calc_business_surplus_unstressed i"
  "business_surplus_stressed (scorecard_result m i l s) = calc_business_surplus_stressed i s"
  "total_monthly_surplus_stressed (scorecard_result m i l s) =
     calc_total_monthly_surplus_stressed i s"
  "total_monthly_surplus_unstressed (scorecard_result m i l s) =
     calc_total_monthly_surplus_unstressed i"
  "stressed_dscr (scorecard_result m i l s) = calc_stressed_dscr m i s"
  "dscr (scorecard_result m i l s) = calc_dscr m i"
  "repayment_share (scorecard_result m i l s) = calc_repayment_share m i"
  "income_variance (scorecard_result m i l s) = calc_income_variance i"
  "equity_ratio (scorecard_result m i l s) = calc_equity_ratio i"
  "liquidity_coverage (scorecard_result m i l s) = calc_liquidity_coverage m i"
  "haircut (scorecard_result m i l s) = calc_haircut i"
  "collateral_coverage (scorecard_result m i l s) = calc_collateral_coverage i"
  "ltv (scorecard_result m i l s) = calc_ltv i"
  "score_character (scorecard_result m i l s) = calc_score_character i l"
  "score_capacity (scorecard_result m i l s) = calc_score_capacity (calc_stressed_dscr m i s) l"
  "score_capital (scorecard_result m i l s) = calc_score_capital i l"
  "score_collateral (scorecard_result m i l s) = calc_score_collateral i l"
  "score_conditions (scorecard_result m i l s) = calc_score_conditions i l"
  "total_score (scorecard_result m i l s) = calc_total_score m i l s"
  "risk_band_label (scorecard_result m i l s) = risk_band (calc_total_score m i l s)"
  "triggered_flags (scorecard_result m i l s) = calc_triggered_flags (calc_flags m i l) i"
  "recommendation (scorecard_result m i l s) =
     calc_recommendation (calc_flags m i l) i (calc_total_score m i l s)"
  by (simp_all add: scorecard_result_def)

lemma calc_flags_fields:
  "Age_Flag (calc_flags m i l) \<longleftrightarrow>
     years_in_business_months i = None
     \<or> the (years_in_business_months i) < BUSINESS_AGE_MIN l"
  "CFDeficit_Flag (calc_flags m i l) \<longleftrightarrow>
     calc_total_monthly_surplus_unstressed i \<noteq> None \<and> m \<noteq> None
     \<and> (the (calc_total_monthly_surplus_unstressed i) \<le> 0
         \<or> (calc_repayment_share m i \<noteq> None
             \<and> the (calc_repayment_share m i) > CASHFLOW_DEFICIT_REPAY_SHARE_MAX l))"
  "Income_Var_Flag (calc_flags m i l) \<longleftrightarrow>
     calc_income_variance i \<noteq> None \<and> the (calc_income_variance i) > DATA_VARIANCE_MAX l"
  "Equity_Flag (calc_flags m i l) \<longleftrightarrow>
     calc_equity_ratio i \<noteq> None \<and> the (calc_equity_ratio i) < EQUITY_MIN_RATIO l"
  "Training_Flag (calc_flags m i l) \<longleftrightarrow> training_certification i = ''No''"
  "LTV_Flag (calc_flags m i l) \<longleftrightarrow>
     calc_ltv i \<noteq> None
     \<and> ((collateral_type i = ''Movable'' \<and> the (calc_ltv i) > LTV_MAX_MOVABLE l)
         \<or> (collateral_type i = ''Immovable'' \<and> the (calc_ltv i) > LTV_MAX_IMMOVABLE l))"
  "Collateral_Flag (calc_flags m i l) \<longleftrightarrow>
     collateral_type i \<noteq> [] \<and> collateral_insured i \<noteq> []
     \<and> (collateral_insured i = ''No'' \<or> collateral_type i = ''None'')"
  "Branch_Limit_Flag (calc_flags m i l) \<longleftrightarrow>
     requested_loan_amount i \<noteq> None
     \<and> the (requested_loan_amount i) > BRANCH_APPROVAL_LIMIT_ETB l"
  "Loan_Max_Flag (calc_flags m i l) \<longleftrightarrow>
     requested_loan_amount i \<noteq> None
     \<and> the (requested_loan_amount i) > BUSINESS_LOAN_HARD_MAX_ETB l"
  "Default_Flag (calc_flags m i l) \<longleftrightarrow> prior_default i = ''Yes''"
  unfolding calc_flags_def by (simp_all only: Flags.simps)

subsection \<open>Bounds of the category scores\<close>

lemma sector_score_nonneg: "0 \<le> sector_score x"
  by (simp add: sector_score_def)

lemma min_cap_bounds:
  fixes w x :: real
  shows "0 < w \<Longrightarrow> 0 \<le> x \<Longrightarrow> 0 \<le> min w x \<and> min w x \<le> w"
  by simp

lemma score_character_bounds:
  assumes "0 < W_CHARACTER l"
  shows "0 \<le> calc_score_character i l \<and> calc_score_character i l \<le> W_CHARACTER l"
  unfolding calc_score_character_def
  by (rule min_cap_bounds [OF assms]) (intro add_nonneg_nonneg; simp)

lemma score_capacity_bounds:
  assumes "0 < W_CAPACITY l"
  shows "0 \<le> calc_score_capacity d l \<and> calc_score_capacity d l \<le> W_CAPACITY l"
  unfolding calc_score_capacity_def
  by (rule min_cap_bounds [OF assms]) simp

lemma score_capital_bounds:
  assumes "0 < W_CAPITAL l"
  shows "0 \<le> calc_score_capital i l \<and> calc_score_capital i l \<le> W_CAPITAL l"
  unfolding calc_score_capital_def
  by (rule min_cap_bounds [OF assms]) simp

lemma score_conditions_bounds:
  assumes "0 < W_CONDITION l"
  shows "0 \<le> calc_score_conditions i l \<and> calc_score_conditions i l \<le> W_CONDITION l"
  unfolding calc_score_conditions_def
  by (rule min_cap_bounds [OF assms]) (intro add_nonneg_nonneg sector_score_nonneg; simp)

text \<open>
  The collateral score before the cap: a tier in \<open>{0, 6, 10}\<close>, less 2 when the
  collateral is uninsured; 0 for collateral type \<open>"None"\<close>.
\<close>

lemma min_cap_lower:
  fixes w x c :: real
  shows "0 < w \<Longrightarrow> c \<le> 0 \<Longrightarrow> c \<le> x \<Longrightarrow> c \<le> min w x \<and> min w x \<le> w"
  by simp

lemma score_collateral_bounds:
  assumes "0 < W_COLLATERAL l"
  shows "- 2 \<le> calc_score_collateral i l \<and> calc_score_collateral i l \<le> W_COLLATERAL l"
  unfolding calc_score_collateral_def
proof (rule min_cap_lower [OF assms])
  show "(- 2 :: real) \<le> 0" by simp
next
  let ?tier = "if calc_ltv i = None then 0
               else if (collateral_type i = ''Movable'' \<and> the (calc_ltv i) \<le> 1)
                       \<or> (collateral_type i = ''Immovable'' \<and> the (calc_ltv i) \<le> 1)
               then 10
               else if (collateral_type i = ''Movable''
                          \<and> the (calc_ltv i) \<le> LTV_MAX_MOVABLE l)
                       \<or> (collateral_type i = ''Immovable''
                          \<and> the (calc_ltv i) \<le> LTV_MAX_IMMOVABLE l)
               then 6
               else (0 :: real)"
  let ?ded = "if collateral_insured i = ''No'' then 2 else (0 :: real)"
  have t: "0 \<le> ?tier" by simp
  have d: "?ded \<le> 2" by simp
  from t d have "- 2 \<le> ?tier - ?ded" by linarith
  then show "- 2 \<le> (if collateral_type i = ''None'' then 0 else ?tier - ?ded)"
    by (cases "collateral_type i = ''None''") simp_all
qed

lemma score_collateral_nonneg:
  assumes "0 < W_COLLATERAL l"
    and "collateral_insured i \<noteq> ''No'' \<or> collateral_type i = ''None''"
  shows "0 \<le> calc_score_collateral i l"
proof (cases "collateral_type i = ''None''")
  case True
  then show ?thesis using assms(1) by (simp add: calc_score_collateral_def)
next
  case False
  with assms(2) have "collateral_insured i \<noteq> ''No''" by blast
  with False assms(1) show ?thesis by (simp add: calc_score_collateral_def)
qed

lemma total_score_bounds: "1 \<le> calc_total_score m i l s \<and> calc_total_score m i l s \<le> 99"
  by (simp add: calc_total_score_def)


subsection \<open>Applications that agree off the descriptive keys\<close>

lemma agree_installment:
  "agree_off_opaque i j \<Longrightarrow> calc_monthly_installment_used i = calc_monthly_installment_used j"
  unfolding agree_off_opaque_def calc_monthly_installment_used_def by (elim conjE) (simp only:)

lemma agree_stress_factor:
  "agree_off_opaque i j \<Longrightarrow> calc_stress_factor i s = calc_stress_factor j s"
  unfolding agree_off_opaque_def calc_stress_factor_def by (elim conjE) (simp only:)

lemma agree_total_operating_expenses:
  "agree_off_opaque i j \<Longrightarrow> calc_total_operating_expenses i = calc_total_operating_expenses j"
  unfolding agree_off_opaque_def calc_total_operating_expenses_def by (elim conjE) (simp only:)

lemma agree_business_surplus_unstressed:
  "agree_off_opaque i j \<Longrightarrow>
     calc_business_surplus_unstressed i = calc_business_surplus_unstressed j"
  using agree_total_operating_expenses [of i j]
  unfolding agree_off_opaque_def calc_business_surplus_unstressed_def by (elim conjE) (simp only:)

lemma agree_business_surplus_stressed:
  "agree_off_opaque i j \<Longrightarrow>
     calc_business_surplus_stressed i s = calc_business_surplus_stressed j s"
  using agree_business_surplus_unstressed [of i j] agree_stress_factor [of i j s]
  by (simp add: calc_business_surplus_stressed_def)

lemma agree_total_monthly_surplus_stressed:
  "agree_off_opaque i j \<Longrightarrow>
     calc_total_monthly_surplus_stressed i s = calc_total_monthly_surplus_stressed j s"
  using agree_business_surplus_stressed [of i j s]
  unfolding agree_off_opaque_def calc_total_monthly_surplus_stressed_def by (elim conjE) (simp only:)

lemma agree_total_monthly_surplus_unstressed:
  "agree_off_opaque i j \<Longrightarrow>
     calc_total_monthly_surplus_unstressed i = calc_total_monthly_surplus_unstressed j"
  using agree_business_surplus_unstressed [of i j]
  unfolding agree_off_opaque_def calc_total_monthly_surplus_unstressed_def by (elim conjE) (simp only:)

lemma agree_stressed_dscr:
  "agree_off_opaque i j \<Longrightarrow> calc_stressed_dscr m i s = calc_stressed_dscr m j s"
  using agree_total_monthly_surplus_stressed [of i j s]
  by (simp add: calc_stressed_dscr_def)

lemma agree_dscr: "agree_off_opaque i j \<Longrightarrow> calc_dscr m i = calc_dscr m j"
  using agree_business_surplus_unstressed [of i j]
  by (simp add: calc_dscr_def)

lemma agree_repayment_share:
  "agree_off_opaque i j \<Longrightarrow> calc_repayment_share m i = calc_repayment_share m j"
  using agree_total_monthly_surplus_unstressed [of i j]
  by (simp add: calc_repayment_share_def)

lemma agree_income_variance:
  "agree_off_opaque i j \<Longrightarrow> calc_income_variance i = calc_income_variance j"
  unfolding agree_off_opaque_def calc_income_variance_def by (elim conjE) (simp only:)

lemma agree_equity_ratio:
  "agree_off_opaque i j \<Longrightarrow> calc_equity_ratio i = calc_equity_ratio j"
  unfolding agree_off_opaque_def calc_equity_ratio_def by (elim conjE) (simp only:)

lemma agree_liquidity_coverage:
  "agree_off_opaque i j \<Longrightarrow> calc_liquidity_coverage m i = calc_liquidity_coverage m j"
  using agree_total_operating_expenses [of i j]
  unfolding agree_off_opaque_def calc_liquidity_coverage_def by (elim conjE) (simp only:)

lemma agree_haircut: "agree_off_opaque i j \<Longrightarrow> calc_haircut i = calc_haircut j"
  unfolding agree_off_opaque_def calc_haircut_def by (elim conjE) (simp only:)

lemma agree_ltv: "agree_off_opaque i j \<Longrightarrow> calc_ltv i = calc_ltv j"
  using agree_haircut [of i j]
  unfolding agree_off_opaque_def calc_ltv_def by (elim conjE) (simp only:)

lemma agree_collateral_coverage:
  "agree_off_opaque i j \<Longrightarrow> calc_collateral_coverage i = calc_collateral_coverage j"
  using agree_ltv [of i j]
  by (simp add: calc_collateral_coverage_def)

lemma agree_score_character:
  "agree_off_opaque i j \<Longrightarrow> calc_score_character i l = calc_score_character j l"
  unfolding agree_off_opaque_def calc_score_character_def by (elim conjE) (simp only:)

lemma agree_score_capital:
  "agree_off_opaque i j \<Longrightarrow> calc_score_capital i l = calc_score_capital j l"
  using agree_equity_ratio [of i j]
  by (simp add: calc_score_capital_def)

lemma agree_score_collateral:
  "agree_off_opaque i j \<Longrightarrow> calc_score_collateral i l = calc_score_collateral j l"
  using agree_ltv [of i j]
  unfolding agree_off_opaque_def calc_score_collateral_def by (elim conjE) (simp only:)

lemma agree_score_conditions:
  "agree_off_opaque i j \<Longrightarrow> calc_score_conditions i l = calc_score_conditions j l"
  unfolding agree_off_opaque_def calc_score_conditions_def by (elim conjE) (simp only:)

lemma agree_total_score:
  "agree_off_opaque i j \<Longrightarrow> calc_total_score m i l s = calc_total_score m j l s"
  using agree_score_character [of i j l] agree_stressed_dscr [of i j m s]
    agree_score_capital [of i j l] agree_score_collateral [of i j l]
    agree_score_conditions [of i j l]
  by (simp add: calc_total_score_def)

lemma agree_flags: "agree_off_opaque i j \<Longrightarrow> calc_flags m i l = calc_flags m j l"
  using agree_total_monthly_surplus_unstressed [of i j] agree_repayment_share [of i j m]
    agree_income_variance [of i j] agree_equity_ratio [of i j] agree_ltv [of i j]
  unfolding agree_off_opaque_def calc_flags_def by (elim conjE) (simp only:)

lemma agree_triggered_flags:
  "agree_off_opaque i j \<Longrightarrow> calc_triggered_flags f i = calc_triggered_flags f j"
  unfolding agree_off_opaque_def calc_triggered_flags_def by (elim conjE) (simp only:)

lemma agree_recommendation:
  "agree_off_opaque i j \<Longrightarrow> calc_recommendation f i t = calc_recommendation f j t"
  unfolding agree_off_opaque_def calc_recommendation_def by (elim conjE) (simp only:)

lemma agree_result:
  assumes "agree_off_opaque i j"
  shows "scorecard_result m i l s = scorecard_result m j l s"
  unfolding scorecard_result_def
  by (simp only: agree_stress_factor [OF assms] agree_total_operating_expenses [OF assms]
      agree_business_surplus_unstressed [OF assms] agree_business_surplus_stressed [OF assms]
      agree_total_monthly_surplus_stressed [OF assms]
      agree_total_monthly_surplus_unstressed [OF assms] agree_stressed_dscr [OF assms]
      agree_dscr [OF assms] agree_repayment_share [OF assms] agree_income_variance [OF assms]
      agree_equity_ratio [OF assms] agree_liquidity_coverage [OF assms]
      agree_haircut [OF assms] agree_ltv [OF assms] agree_collateral_coverage [OF assms]
      agree_score_character [OF assms] agree_score_capital [OF assms]
      agree_score_collateral [OF assms] agree_score_conditions [OF assms]
      agree_total_score [OF assms] agree_flags [OF assms] agree_triggered_flags [OF assms]
      agree_recommendation [OF assms])

subsection \<open>Evaluation of the baseline application\<close>

lemma scenario_A_fields:
  "sex (scenario_A d) = ''M''"
  "age_years (scenario_A d) = Some 35"
  "marital_status (scenario_A d) = ''Married''"
  "repeat_borrower (scenario_A d) = ''No''"
  "loan_series (scenario_A d) = Some 2"
  "prior_default (scenario_A d) = ''No''"
  "requested_loan_amount (scenario_A d) = Some 50000"
  "monthly_installment_override (scenario_A d) = Some 4584"
  "term_months (scenario_A d) = Some 12"
  "annual_interest_rate (scenario_A d) = Some 18"
  "site_visit_assessment (scenario_A d) = 3"
  "sector (scenario_A d) = ''Trade''"
  "training_certification (scenario_A d) = ''Yes''"
  "is_business_seasonal (scenario_A d) = ''No''"
  "years_in_business_months (scenario_A d) = Some 24"
  "character_references (scenario_A d) = ''Good''"
  "stability_months (scenario_A d) = Some 24"
  "stated_revenue (scenario_A d) = Some 30000"
  "verified_revenue (scenario_A d) = Some 28000"
  "cogs_inventory (scenario_A d) = Some 12000"
  "other_monthly_income (scenario_A d) = Some 2000"
  "rent (scenario_A d) = Some 3000"
  "household_expenses (scenario_A d) = Some 5000"
  "utilities (scenario_A d) = Some 800"
  "owner_withdrawals (scenario_A d) = Some 1500"
  "wages (scenario_A d) = Some 2500"
  "transport (scenario_A d) = Some 700"
  "other_operating_costs (scenario_A d) = Some 1000"
  "total_capital (scenario_A d) = Some 20000"
  "additional_savings_equity (scenario_A d) = Some 10000"
  "collateral_type (scenario_A d) = ''Movable''"
  "collateral_insured (scenario_A d) = ''Yes''"
  "market_value (scenario_A d) = Some 150000"
  by (simp_all add: scenario_A_def)

lemma A_stress_factor:
  "calc_stress_factor (scenario_A d) DEFAULT_SECTOR_STRESS = Some (85 / 100)"
  by (simp add: calc_stress_factor_def scenario_A_fields DEFAULT_SECTOR_STRESS_def)

lemma A_installment: "calc_monthly_installment_used (scenario_A d) = Inr (Some 4584)"
  by (simp add: calc_monthly_installment_used_def scenario_A_fields)

lemma A_total_operating_expenses:
  "calc_total_operating_expenses (scenario_A d) = Some 8000"
  by (simp add: calc_total_operating_expenses_def scenario_A_fields)

lemma A_business_surplus_unstressed:
  "calc_business_surplus_unstressed (scenario_A d) = Some 8000"
  by (simp add: calc_business_surplus_unstressed_def A_total_operating_expenses
      scenario_A_fields)

lemma A_business_surplus_stressed:
  "calc_business_surplus_stressed (scenario_A d) DEFAULT_SECTOR_STRESS = Some 6800"
  by (simp add: calc_business_surplus_stressed_def A_business_surplus_unstressed
      A_stress_factor)

lemma A_total_monthly_surplus_unstressed:
  "calc_total_monthly_surplus_unstressed (scenario_A d) = Some 3500"
  by (simp add: calc_total_monthly_surplus_unstressed_def A_business_surplus_unstressed
      scenario_A_fields)

lemma A_total_monthly_surplus_stressed:
  "calc_total_monthly_surplus_stressed (scenario_A d) DEFAULT_SECTOR_STRESS = Some 2300"
  by (simp add: calc_total_monthly_surplus_stressed_def A_business_surplus_stressed
      scenario_A_fields)

lemma A_stressed_dscr:
  "calc_stressed_dscr (Some 4584) (scenario_A d) DEFAULT_SECTOR_STRESS = Some (2300 / 4584)"
  by (simp add: calc_stressed_dscr_def safe_divide_def A_total_monthly_surplus_stressed)

lemma A_dscr: "calc_dscr (Some 4584) (scenario_A d) = Some (8000 / 4584)"
  by (simp add: calc_dscr_def safe_divide_def A_business_surplus_unstressed)

lemma A_repayment_share:
  "calc_repayment_share (Some 4584) (scenario_A d) = Some (4584 / 3500)"
  by (simp add: calc_repayment_share_def A_total_monthly_surplus_unstressed)

lemma A_income_variance: "calc_income_variance (scenario_A d) = Some (2000 / 28000)"
  by (simp add: calc_income_variance_def scenario_A_fields)

lemma A_equity_ratio: "calc_equity_ratio (scenario_A d) = Some (6 / 10)"
  by (simp add: calc_equity_ratio_def scenario_A_fields)

lemma A_liquidity_coverage:
  "calc_liquidity_coverage (Some 4584) (scenario_A d) = Some (10000 / 26084)"
  by (simp add: calc_liquidity_coverage_def safe_divide_def A_total_operating_expenses
      scenario_A_fields)

lemma A_haircut: "calc_haircut (scenario_A d) = 5 / 10"
  by (simp add: calc_haircut_def scenario_A_fields)

lemma A_ltv: "calc_ltv (scenario_A d) = Some (2 / 3)"
  by (simp add: calc_ltv_def A_haircut safe_divide_def scenario_A_fields)

lemma A_collateral_coverage: "calc_collateral_coverage (scenario_A d) = Some (3 / 2)"
  by (simp add: calc_collateral_coverage_def safe_divide_def A_ltv)

lemma A_score_character: "calc_score_character (scenario_A d) DEFAULT_LOOKUP_VALUES = 21"
  by (simp add: calc_score_character_def scenario_A_fields DEFAULT_LOOKUP_VALUES_def)

lemma A_score_capacity:
  "calc_score_capacity (Some (2300 / 4584)) DEFAULT_LOOKUP_VALUES = 0"
  by (simp add: calc_score_capacity_def DEFAULT_LOOKUP_VALUES_def)

lemma A_score_capital: "calc_score_capital (scenario_A d) DEFAULT_LOOKUP_VALUES = 10"
  by (simp add: calc_score_capital_def A_equity_ratio DEFAULT_LOOKUP_VALUES_def)

lemma A_score_collateral: "calc_score_collateral (scenario_A d) DEFAULT_LOOKUP_VALUES = 10"
  by (simp add: calc_score_collateral_def A_ltv scenario_A_fields DEFAULT_LOOKUP_VALUES_def)

lemma A_score_conditions: "calc_score_conditions (scenario_A d) DEFAULT_LOOKUP_VALUES = 10"
  by (simp add: calc_score_conditions_def sector_score_def scenario_A_fields
      DEFAULT_LOOKUP_VALUES_def)

lemma A_total_score:
  "calc_total_score (Some 4584) (scenario_A d) DEFAULT_LOOKUP_VALUES DEFAULT_SECTOR_STRESS = 51"
  by (simp only: calc_total_score_def A_stressed_dscr A_score_character A_score_capacity
      A_score_capital A_score_collateral A_score_conditions)

lemma risk_band_51: "risk_band 51 = ''High Risk''"
  by (simp add: risk_band_def RISK_BANDS_def)

lemma A_flags:
  "calc_flags (Some 4584) (scenario_A d) DEFAULT_LOOKUP_VALUES =
     \<lparr> Age_Flag = False, CFDeficit_Flag = True, Income_Var_Flag = False,
       Equity_Flag = False, Training_Flag = False, LTV_Flag = False,
       Collateral_Flag = False, Branch_Limit_Flag = False, Loan_Max_Flag = False,
       Default_Flag = False \<rparr>"
  by (simp add: calc_flags_def A_total_monthly_surplus_unstressed A_repayment_share
      A_income_variance A_equity_ratio A_ltv scenario_A_fields DEFAULT_LOOKUP_VALUES_def)

lemma A_triggered_flags:
  "calc_triggered_flags (calc_flags (Some 4584) (scenario_A d) DEFAULT_LOOKUP_VALUES)
     (scenario_A d) = [''REJECT: Cash flow deficit (repayment >50% of surplus)'']"
  by (simp add: A_flags calc_triggered_flags_def scenario_A_fields)

lemma A_recommendation:
  "calc_recommendation (calc_flags (Some 4584) (scenario_A d) DEFAULT_LOOKUP_VALUES)
     (scenario_A d) 51 = ''REJECT''"
  by (simp add: A_flags calc_recommendation_def)


subsection \<open>Evaluation of the variants\<close>

lemma baseline_installment: "calc_monthly_installment_used baseline = Inr (Some 4584)"
  unfolding baseline_def by (rule A_installment)

lemma override_kept:
  "monthly_installment_override i = Some v \<Longrightarrow> calc_monthly_installment_used i = Inr (Some v)"
  by (simp add: calc_monthly_installment_used_def)

lemma baseline_fields:
  "monthly_installment_override baseline = Some 4584"
  "requested_loan_amount baseline = Some 50000"
  "term_months baseline = Some 12"
  "annual_interest_rate baseline = Some 18"
  "collateral_type baseline = ''Movable''"
  "collateral_insured baseline = ''Yes''"
  "market_value baseline = Some 150000"
  by (simp_all add: baseline_def scenario_A_fields)

lemma household_deficit_surplus:
  "calc_total_monthly_surplus_unstressed household_deficit = Some (- 1500)"
  by (simp add: household_deficit_def baseline_def calc_total_monthly_surplus_unstressed_def
      calc_business_surplus_unstressed_def calc_total_operating_expenses_def
      scenario_A_fields)

lemma household_deficit_installment:
  "calc_monthly_installment_used household_deficit = Inr (Some 4584)"
  by (rule override_kept) (simp add: household_deficit_def baseline_fields)

lemma no_term_installment: "calc_monthly_installment_used no_term = Inr None"
  by (simp add: calc_monthly_installment_used_def no_term_def)

lemma above_branch_limit_installment:
  "calc_monthly_installment_used above_branch_limit = Inr (Some 4584)"
  by (rule override_kept) (simp add: above_branch_limit_def baseline_fields)

lemma no_amount_installment: "calc_monthly_installment_used no_amount = Inr (Some 4584)"
  by (rule override_kept) (simp add: no_amount_def baseline_fields)

lemma at_hard_max_installment: "calc_monthly_installment_used at_hard_max = Inr (Some 4584)"
  by (rule override_kept) (simp add: at_hard_max_def baseline_fields)


text \<open>
  The baseline without override and without term: no installment, so no capacity score
  and no cash-flow-deficit flag.
\<close>

lemma no_term_fields:
  "sex no_term = ''M''"
  "age_years no_term = Some 35"
  "marital_status no_term = ''Married''"
  "repeat_borrower no_term = ''No''"
  "loan_series no_term = Some 2"
  "prior_default no_term = ''No''"
  "requested_loan_amount no_term = Some 50000"
  "site_visit_assessment no_term = 3"
  "sector no_term = ''Trade''"
  "training_certification no_term = ''Yes''"
  "is_business_seasonal no_term = ''No''"
  "years_in_business_months no_term = Some 24"
  "character_references no_term = ''Good''"
  "stability_months no_term = Some 24"
  "stated_revenue no_term = Some 30000"
  "verified_revenue no_term = Some 28000"
  "total_capital no_term = Some 20000"
  "additional_savings_equity no_term = Some 10000"
  "collateral_type no_term = ''Movable''"
  "collateral_insured no_term = ''Yes''"
  "market_value no_term = Some 150000"
  by (simp_all add: no_term_def baseline_def scenario_A_fields)

lemma no_term_income_variance: "calc_income_variance no_term = Some (2000 / 28000)"
  by (simp add: calc_income_variance_def no_term_fields)

lemma no_term_equity_ratio: "calc_equity_ratio no_term = Some (6 / 10)"
  by (simp add: calc_equity_ratio_def no_term_fields)

lemma no_term_ltv: "calc_ltv no_term = Some (2 / 3)"
  by (simp add: calc_ltv_def calc_haircut_def safe_divide_def no_term_fields)

lemma no_term_score_character: "calc_score_character no_term DEFAULT_LOOKUP_VALUES = 21"
  by (simp add: calc_score_character_def no_term_fields DEFAULT_LOOKUP_VALUES_def)

lemma no_term_score_capacity:
  "calc_score_capacity (calc_stressed_dscr None no_term DEFAULT_SECTOR_STRESS)
     DEFAULT_LOOKUP_VALUES = 0"
  by (simp add: calc_stressed_dscr_def safe_divide_def calc_score_capacity_def
      DEFAULT_LOOKUP_VALUES_def)

lemma no_term_score_capital: "calc_score_capital no_term DEFAULT_LOOKUP_VALUES = 10"
  by (simp add: calc_score_capital_def no_term_equity_ratio DEFAULT_LOOKUP_VALUES_def)

lemma no_term_score_collateral: "calc_score_collateral no_term DEFAULT_LOOKUP_VALUES = 10"
  by (simp add: calc_score_collateral_def no_term_ltv no_term_fields
      DEFAULT_LOOKUP_VALUES_def)

lemma no_term_score_conditions: "calc_score_conditions no_term DEFAULT_LOOKUP_VALUES = 10"
  by (simp add: calc_score_conditions_def sector_score_def no_term_fields
      DEFAULT_LOOKUP_VALUES_def)

lemma no_term_total_score:
  "calc_total_score None no_term DEFAULT_LOOKUP_VALUES DEFAULT_SECTOR_STRESS = 51"
  by (simp only: calc_total_score_def no_term_score_character no_term_score_capacity
      no_term_score_capital no_term_score_collateral no_term_score_conditions)

lemma no_term_hard_flags:
  "\<not> Age_Flag (calc_flags None no_term DEFAULT_LOOKUP_VALUES)"
  "\<not> CFDeficit_Flag (calc_flags None no_term DEFAULT_LOOKUP_VALUES)"
  "\<not> Income_Var_Flag (calc_flags None no_term DEFAULT_LOOKUP_VALUES)"
  "\<not> Default_Flag (calc_flags None no_term DEFAULT_LOOKUP_VALUES)"
  "\<not> Loan_Max_Flag (calc_flags None no_term DEFAULT_LOOKUP_VALUES)"
  by (simp_all add: calc_flags_fields no_term_fields no_term_income_variance
      DEFAULT_LOOKUP_VALUES_def)


section \<open>Properties of the decision engine\<close>

subsection \<open>Hard stops and the score floor\<close>

text \<open>
  Claim C1. Whenever one of the rule-1 conditions holds (the business-age flag, the
  cash-flow-deficit flag, the income-variance flag, the prior-default flag, the
  loan-hard-max flag, or collateral type \<open>"None"\<close>) the recommendation is \<open>"REJECT"\<close>,
  whatever the total score; and when none of them holds but the total score is at most
  54, the recommendation is \<open>"REJECT"\<close> as well.
\<close>

theorem hard_stop_or_low_score_rejects:
  assumes "calculate_scorecard i l s = Inr r"
    and "scorecard_flags i l = Inr f"
    and "(Age_Flag f \<or> CFDeficit_Flag f \<or> Income_Var_Flag f \<or> Default_Flag f
          \<or> Loan_Max_Flag f \<or> collateral_type i = ''None'')
         \<or> total_score r \<le> 54"
  shows "recommendation r = ''REJECT''"
proof -
  from assms(1) obtain m where m: "calc_monthly_installment_used i = Inr m"
    and r: "r = scorecard_result m i l s"
    unfolding calculate_scorecard_Inr by blast
  from assms(2) m have f: "f = calc_flags m i l"
    unfolding scorecard_flags_Inr by simp
  have "recommendation r = calc_recommendation f i (total_score r)"
    by (simp add: r f scorecard_result_fields)
  with assms(3) show ?thesis
    by (auto simp add: calc_recommendation_def)
qed

theorem hard_stop_or_low_score_rejects_witness:
  "calculate_scorecard baseline DEFAULT_LOOKUP_VALUES DEFAULT_SECTOR_STRESS =
     Inr (scorecard_result (Some 4584) baseline DEFAULT_LOOKUP_VALUES DEFAULT_SECTOR_STRESS)
   \<and> scorecard_flags baseline DEFAULT_LOOKUP_VALUES =
       Inr (calc_flags (Some 4584) baseline DEFAULT_LOOKUP_VALUES)
   \<and> CFDeficit_Flag (calc_flags (Some 4584) baseline DEFAULT_LOOKUP_VALUES)
   \<and> recommendation
         (scorecard_result (Some 4584) baseline DEFAULT_LOOKUP_VALUES DEFAULT_SECTOR_STRESS)
       = ''REJECT''
   \<and> calculate_scorecard no_term DEFAULT_LOOKUP_VALUES DEFAULT_SECTOR_STRESS =
       Inr (scorecard_result None no_term DEFAULT_LOOKUP_VALUES DEFAULT_SECTOR_STRESS)
   \<and> scorecard_flags no_term DEFAULT_LOOKUP_VALUES =
       Inr (calc_flags None no_term DEFAULT_LOOKUP_VALUES)
   \<and> \<not> Age_Flag (calc_flags None no_term DEFAULT_LOOKUP_VALUES)
   \<and> \<not> CFDeficit_Flag (calc_flags None no_term DEFAULT_LOOKUP_VALUES)
   \<and> \<not> Income_Var_Flag (calc_flags None no_term DEFAULT_LOOKUP_VALUES)
   \<and> \<not> Default_Flag (calc_flags None no_term DEFAULT_LOOKUP_VALUES)
   \<and> \<not> Loan_Max_Flag (calc_flags None no_term DEFAULT_LOOKUP_VALUES)
   \<and> collateral_type no_term = ''Movable''
   \<and> total_score
         (scorecard_result None no_term DEFAULT_LOOKUP_VALUES DEFAULT_SECTOR_STRESS) = 51
   \<and> recommendation
         (scorecard_result None no_term DEFAULT_LOOKUP_VALUES DEFAULT_SECTOR_STRESS)
       = ''REJECT''"
proof -
  let ?L = DEFAULT_LOOKUP_VALUES and ?S = DEFAULT_SECTOR_STRESS
  have c: "calculate_scorecard baseline ?L ?S =
      Inr (scorecard_result (Some 4584) baseline ?L ?S)"
    by (rule calculate_scorecard_returns [OF baseline_installment])
  have f: "scorecard_flags baseline ?L = Inr (calc_flags (Some 4584) baseline ?L)"
    by (rule scorecard_flags_returns [OF baseline_installment])
  have d: "CFDeficit_Flag (calc_flags (Some 4584) baseline ?L)"
    unfolding baseline_def by (simp add: A_flags)
  from hard_stop_or_low_score_rejects [OF c f] d
  have w1: "recommendation (scorecard_result (Some 4584) baseline ?L ?S) = ''REJECT''"
    by blast
  have c2: "calculate_scorecard no_term ?L ?S = Inr (scorecard_result None no_term ?L ?S)"
    by (rule calculate_scorecard_returns [OF no_term_installment])
  have f2: "scorecard_flags no_term ?L = Inr (calc_flags None no_term ?L)"
    by (rule scorecard_flags_returns [OF no_term_installment])
  have t2: "total_score (scorecard_result None no_term ?L ?S) = 51"
    by (simp only: scorecard_result_fields no_term_total_score)
  from hard_stop_or_low_score_rejects [OF c2 f2] t2
  have w2: "recommendation (scorecard_result None no_term ?L ?S) = ''REJECT''"
    by simp
  from c f d w1 c2 f2 no_term_hard_flags no_term_fields(19) t2 w2 show ?thesis
    by blast
qed

subsection \<open>The baseline scenario\<close>

text \<open>
  Claim C9. With the default policy and the Scenario A application, the engine returns
  operating expenses 8000, unstressed business surplus 8000, stressed business surplus
  6800, unstressed total surplus 3500, stressed total surplus 2300, stressed DSCR
  2300/4584, equity ratio 0.6, LTV 2/3, the category scores 21, 0, 10, 10 and 10, total
  score 51, risk band \<open>"High Risk"\<close>, the cash-flow-deficit flag set and every other flag
  clear, and the recommendation \<open>"REJECT"\<close>. The theorem gives the whole result
  dictionary and the whole flag dictionary.
\<close>

theorem scenario_A_result:
  "calculate_scorecard (scenario_A d) DEFAULT_LOOKUP_VALUES DEFAULT_SECTOR_STRESS =
     Inr \<lparr> stress_factor = Some (85 / 100),
           monthly_installment_used = Some 4584,
           total_operating_expenses = Some 8000,
           business_surplus_unstressed = Some 8000,
           business_surplus_stressed = Some 6800,
           total_monthly_surplus_stressed = Some 2300,
           total_monthly_surplus_unstressed = Some 3500,
           stressed_dscr = Some (2300 / 4584),
           dscr = Some (8000 / 4584),
           repayment_share = Some (4584 / 3500),
           income_variance = Some (2000 / 28000),
           equity_ratio = Some (6 / 10),
           liquidity_coverage = Some (10000 / 26084),
           haircut = 5 / 10,
           collateral_coverage = Some (3 / 2),
           ltv = Some (2 / 3),
           score_character = 21,
           score_capacity = 0,
           score_capital = 10,
           score_collateral = 10,
           score_conditions = 10,
           total_score = 51,
           risk_band_label = ''High Risk'',
           triggered_flags = [''REJECT: Cash flow deficit (repayment >50% of surplus)''],
           recommendation = ''REJECT'' \<rparr>
   \<and> scorecard_flags (scenario_A d) DEFAULT_LOOKUP_VALUES =
       Inr \<lparr> Age_Flag = False, CFDeficit_Flag = True, Income_Var_Flag = False,
             Equity_Flag = False, Training_Flag = False, LTV_Flag = False,
             Collateral_Flag = False, Branch_Limit_Flag = False, Loan_Max_Flag = False,
             Default_Flag = False \<rparr>"
proof
  show "calculate_scorecard (scenario_A d) DEFAULT_LOOKUP_VALUES DEFAULT_SECTOR_STRESS =
     Inr \<lparr> stress_factor = Some (85 / 100),
           monthly_installment_used = Some 4584,
           total_operating_expenses = Some 8000,
           business_surplus_unstressed = Some 8000,
           business_surplus_stressed = Some 6800,
           total_monthly_surplus_stressed = Some 2300,
           total_monthly_surplus_unstressed = Some 3500,
           stressed_dscr = Some (2300 / 4584),
           dscr = Some (8000 / 4584),
           repayment_share = Some (4584 / 3500),
           income_variance = Some (2000 / 28000),
           equity_ratio = Some (6 / 10),
           liquidity_coverage = Some (10000 / 26084),
           haircut = 5 / 10,
           collateral_coverage = Some (3 / 2),
           ltv = Some (2 / 3),
           score_character = 21,
           score_capacity = 0,
           score_capital = 10,
           score_collateral = 10,
           score_conditions = 10,
           total_score = 51,
           risk_band_label = ''High Risk'',
           triggered_flags = [''REJECT: Cash flow deficit (repayment >50% of surplus)''],
           recommendation = ''REJECT'' \<rparr>"
    unfolding calculate_scorecard_returns [OF A_installment] scorecard_result_def
    by (simp only: A_stress_factor A_total_operating_expenses A_business_surplus_unstressed
        A_business_surplus_stressed A_total_monthly_surplus_stressed
        A_total_monthly_surplus_unstressed A_stressed_dscr A_dscr A_repayment_share
        A_income_variance A_equity_ratio A_liquidity_coverage A_haircut
        A_collateral_coverage A_ltv A_score_character A_score_capacity A_score_capital
        A_score_collateral A_score_conditions A_total_score risk_band_51 A_triggered_flags
        A_recommendation)
next
  show "scorecard_flags (scenario_A d) DEFAULT_LOOKUP_VALUES =
       Inr \<lparr> Age_Flag = False, CFDeficit_Flag = True, Income_Var_Flag = False,
             Equity_Flag = False, Training_Flag = False, LTV_Flag = False,
             Collateral_Flag = False, Branch_Limit_Flag = False, Loan_Max_Flag = False,
             Default_Flag = False \<rparr>"
    unfolding scorecard_flags_returns [OF A_installment] by (simp only: A_flags)
qed

subsection \<open>Descriptive keys do not influence the result\<close>

text \<open>
  Claim C10. Two applications that differ only in \<open>credit_officer_id\<close>,
  \<open>credit_officer_name\<close>, \<open>applicant_name\<close>, \<open>applicant_id\<close>, \<open>branch\<close>,
  \<open>literacy\<close>, \<open>business_name\<close>, \<open>business_type\<close>, \<open>ownership\<close>,
  \<open>loan_purpose\<close> or \<open>application_date\<close> get the same outcome from
  \<open>calculate_scorecard\<close> under the same policy: the same result dictionary, or the same
  exception.
\<close>

theorem descriptive_keys_noninterference:
  assumes "agree_off_opaque i j"
  shows "calculate_scorecard i l s = calculate_scorecard j l s"
  unfolding calculate_scorecard_def
  by (simp only: agree_installment [OF assms] agree_result [OF assms])

theorem descriptive_keys_noninterference_witness:
  "agree_off_opaque baseline relabelled
   \<and> applicant_name baseline \<noteq> applicant_name relabelled
   \<and> calculate_scorecard baseline DEFAULT_LOOKUP_VALUES DEFAULT_SECTOR_STRESS =
       calculate_scorecard relabelled DEFAULT_LOOKUP_VALUES DEFAULT_SECTOR_STRESS"
proof -
  have a: "agree_off_opaque baseline relabelled"
    by (simp add: agree_off_opaque_def relabelled_def)
  have n: "applicant_name baseline \<noteq> applicant_name relabelled"
    by (simp add: relabelled_def baseline_def scenario_A_def)
  from descriptive_keys_noninterference [OF a] a n show ?thesis by blast
qed


subsection \<open>Repayment share\<close>

text \<open>
  Claim C6. When the installment used and the unstressed total monthly surplus are both
  present, the repayment share is exactly 1 if that surplus is at most 0, whatever the
  installment, and the installment divided by the surplus if the surplus is positive;
  the repayment share is null whenever the installment or the surplus is null.
\<close>

theorem repayment_share_rule:
  assumes "calculate_scorecard i l s = Inr r"
  shows "(\<forall>m t. monthly_installment_used r = Some m
                \<and> total_monthly_surplus_unstressed r = Some t
            \<longrightarrow> repayment_share r = Some (if t \<le> 0 then 1 else m / t))
         \<and> (monthly_installment_used r = None \<or> total_monthly_surplus_unstressed r = None
            \<longrightarrow> repayment_share r = None)"
proof -
  from assms obtain m where r: "r = scorecard_result m i l s"
    unfolding calculate_scorecard_Inr by blast
  show ?thesis
    unfolding r scorecard_result_fields calc_repayment_share_def by auto
qed

theorem repayment_share_rule_witness:
  "calculate_scorecard baseline DEFAULT_LOOKUP_VALUES DEFAULT_SECTOR_STRESS =
     Inr (scorecard_result (Some 4584) baseline DEFAULT_LOOKUP_VALUES DEFAULT_SECTOR_STRESS)
   \<and> repayment_share
         (scorecard_result (Some 4584) baseline DEFAULT_LOOKUP_VALUES DEFAULT_SECTOR_STRESS)
       = Some (4584 / 3500)
   \<and> calculate_scorecard household_deficit DEFAULT_LOOKUP_VALUES DEFAULT_SECTOR_STRESS =
       Inr (scorecard_result (Some 4584) household_deficit DEFAULT_LOOKUP_VALUES
              DEFAULT_SECTOR_STRESS)
   \<and> total_monthly_surplus_unstressed
         (scorecard_result (Some 4584) household_deficit DEFAULT_LOOKUP_VALUES
            DEFAULT_SECTOR_STRESS) = Some (- 1500)
   \<and> repayment_share
         (scorecard_result (Some 4584) household_deficit DEFAULT_LOOKUP_VALUES
            DEFAULT_SECTOR_STRESS) = Some 1
   \<and> calculate_scorecard no_term DEFAULT_LOOKUP_VALUES DEFAULT_SECTOR_STRESS =
       Inr (scorecard_result None no_term DEFAULT_LOOKUP_VALUES DEFAULT_SECTOR_STRESS)
   \<and> repayment_share
         (scorecard_result None no_term DEFAULT_LOOKUP_VALUES DEFAULT_SECTOR_STRESS) = None"
proof -
  let ?L = DEFAULT_LOOKUP_VALUES and ?S = DEFAULT_SECTOR_STRESS
  have c1: "calculate_scorecard baseline ?L ?S = Inr (scorecard_result (Some 4584) baseline ?L ?S)"
    by (rule calculate_scorecard_returns [OF baseline_installment])
  have m1: "monthly_installment_used (scorecard_result (Some 4584) baseline ?L ?S) = Some 4584
            \<and> total_monthly_surplus_unstressed (scorecard_result (Some 4584) baseline ?L ?S)
                = Some 3500"
    by (simp add: scorecard_result_fields baseline_def A_total_monthly_surplus_unstressed)
  have c2: "calculate_scorecard household_deficit ?L ?S =
              Inr (scorecard_result (Some 4584) household_deficit ?L ?S)"
    by (rule calculate_scorecard_returns [OF household_deficit_installment])
  have m2: "monthly_installment_used (scorecard_result (Some 4584) household_deficit ?L ?S)
              = Some 4584
            \<and> total_monthly_surplus_unstressed
                (scorecard_result (Some 4584) household_deficit ?L ?S) = Some (- 1500)"
    by (simp add: scorecard_result_fields household_deficit_surplus)
  have c3: "calculate_scorecard no_term ?L ?S = Inr (scorecard_result None no_term ?L ?S)"
    by (rule calculate_scorecard_returns [OF no_term_installment])
  have m3: "monthly_installment_used (scorecard_result None no_term ?L ?S) = None"
    by (simp add: scorecard_result_fields)
  from repayment_share_rule [OF c1] m1
  have r1: "repayment_share (scorecard_result (Some 4584) baseline ?L ?S)
              = Some (4584 / 3500)"
    by simp
  from repayment_share_rule [OF c2] m2
  have r2: "repayment_share (scorecard_result (Some 4584) household_deficit ?L ?S) = Some 1"
    by simp
  from repayment_share_rule [OF c3] m3
  have r3: "repayment_share (scorecard_result None no_term ?L ?S) = None"
    by simp
  from c1 r1 c2 m2 r2 c3 r3 show ?thesis by simp
qed

subsection \<open>Branch limit and hard maximum\<close>

text \<open>
  Claim C8. The branch-limit and hard-maximum checks compare strictly: with a requested
  amount present, the branch-limit flag is set exactly when the amount is greater than
  \<open>BRANCH_APPROVAL_LIMIT_ETB\<close> and the loan-hard-max flag exactly when it is greater
  than \<open>BUSINESS_LOAN_HARD_MAX_ETB\<close>, so an amount equal to a limit does not set that
  limit's flag; both flags are clear when the amount is null. The messages of the two
  flags are in the returned message list exactly when the flags are set.
\<close>

theorem limit_flags_strict:
  assumes "calculate_scorecard i l s = Inr r"
    and "scorecard_flags i l = Inr f"
  shows "(Branch_Limit_Flag f \<longleftrightarrow>
            (\<exists>a. requested_loan_amount i = Some a \<and> BRANCH_APPROVAL_LIMIT_ETB l < a))
         \<and> (Loan_Max_Flag f \<longleftrightarrow>
            (\<exists>a. requested_loan_amount i = Some a \<and> BUSINESS_LOAN_HARD_MAX_ETB l < a))
         \<and> (requested_loan_amount i = Some (BRANCH_APPROVAL_LIMIT_ETB l)
            \<longrightarrow> \<not> Branch_Limit_Flag f)
         \<and> (requested_loan_amount i = Some (BUSINESS_LOAN_HARD_MAX_ETB l)
            \<longrightarrow> \<not> Loan_Max_Flag f)
         \<and> (requested_loan_amount i = None
            \<longrightarrow> \<not> Branch_Limit_Flag f \<and> \<not> Loan_Max_Flag f)
         \<and> (''REFER: Above branch approval limit'' \<in> set (triggered_flags r)
            \<longleftrightarrow> Branch_Limit_Flag f)
         \<and> (''REJECT: Above hard max loan amount'' \<in> set (triggered_flags r)
            \<longleftrightarrow> Loan_Max_Flag f)"
proof -
  from assms(1) obtain m where m: "calc_monthly_installment_used i = Inr m"
    and r: "r = scorecard_result m i l s"
    unfolding calculate_scorecard_Inr by blast
  from assms(2) m have f: "f = calc_flags m i l"
    unfolding scorecard_flags_Inr by simp
  have b: "Branch_Limit_Flag f \<longleftrightarrow>
      (\<exists>a. requested_loan_amount i = Some a \<and> BRANCH_APPROVAL_LIMIT_ETB l < a)"
    unfolding f calc_flags_fields by (cases "requested_loan_amount i") simp_all
  have h: "Loan_Max_Flag f \<longleftrightarrow>
      (\<exists>a. requested_loan_amount i = Some a \<and> BUSINESS_LOAN_HARD_MAX_ETB l < a)"
    unfolding f calc_flags_fields by (cases "requested_loan_amount i") simp_all
  have t: "triggered_flags r = calc_triggered_flags f i"
    by (simp add: r f scorecard_result_fields)
  have mb: "''REFER: Above branch approval limit'' \<in> set (triggered_flags r)
      \<longleftrightarrow> Branch_Limit_Flag f"
    unfolding t calc_triggered_flags_def by simp
  have mh: "''REJECT: Above hard max loan amount'' \<in> set (triggered_flags r)
      \<longleftrightarrow> Loan_Max_Flag f"
    unfolding t calc_triggered_flags_def by simp
  from b h mb mh show ?thesis by auto
qed

theorem limit_flags_strict_witness:
  "requested_loan_amount baseline = Some (BRANCH_APPROVAL_LIMIT_ETB DEFAULT_LOOKUP_VALUES)
   \<and> \<not> Branch_Limit_Flag (calc_flags (Some 4584) baseline DEFAULT_LOOKUP_VALUES)
   \<and> requested_loan_amount at_hard_max
       = Some (BUSINESS_LOAN_HARD_MAX_ETB DEFAULT_LOOKUP_VALUES)
   \<and> \<not> Loan_Max_Flag (calc_flags (Some 4584) at_hard_max DEFAULT_LOOKUP_VALUES)
   \<and> Branch_Limit_Flag (calc_flags (Some 4584) at_hard_max DEFAULT_LOOKUP_VALUES)
   \<and> requested_loan_amount above_branch_limit = Some 60000
   \<and> Branch_Limit_Flag (calc_flags (Some 4584) above_branch_limit DEFAULT_LOOKUP_VALUES)
   \<and> requested_loan_amount no_amount = None
   \<and> \<not> Branch_Limit_Flag (calc_flags (Some 4584) no_amount DEFAULT_LOOKUP_VALUES)
   \<and> \<not> Loan_Max_Flag (calc_flags (Some 4584) no_amount DEFAULT_LOOKUP_VALUES)"
proof -
  let ?L = DEFAULT_LOOKUP_VALUES and ?S = DEFAULT_SECTOR_STRESS
  have a1: "requested_loan_amount baseline = Some (BRANCH_APPROVAL_LIMIT_ETB ?L)"
    by (simp add: baseline_fields DEFAULT_LOOKUP_VALUES_def)
  have a2: "requested_loan_amount at_hard_max = Some (BUSINESS_LOAN_HARD_MAX_ETB ?L)"
    by (simp add: at_hard_max_def DEFAULT_LOOKUP_VALUES_def)
  have a3: "requested_loan_amount above_branch_limit = Some 60000"
    by (simp add: above_branch_limit_def)
  have a4: "requested_loan_amount no_amount = None"
    by (simp add: no_amount_def)
  have l: "BRANCH_APPROVAL_LIMIT_ETB ?L = 50000" "BUSINESS_LOAN_HARD_MAX_ETB ?L = 3000000"
    by (simp_all add: DEFAULT_LOOKUP_VALUES_def)
  note t1 = limit_flags_strict
    [OF calculate_scorecard_returns [OF baseline_installment]
        scorecard_flags_returns [OF baseline_installment], of ?L ?S]
  note t2 = limit_flags_strict
    [OF calculate_scorecard_returns [OF at_hard_max_installment]
        scorecard_flags_returns [OF at_hard_max_installment], of ?L ?S]
  note t3 = limit_flags_strict
    [OF calculate_scorecard_returns [OF above_branch_limit_installment]
        scorecard_flags_returns [OF above_branch_limit_installment], of ?L ?S]
  note t4 = limit_flags_strict
    [OF calculate_scorecard_returns [OF no_amount_installment]
        scorecard_flags_returns [OF no_amount_installment], of ?L ?S]
  from t1 a1 have w1: "\<not> Branch_Limit_Flag (calc_flags (Some 4584) baseline ?L)"
    by blast
  from t2 a2 have w2: "\<not> Loan_Max_Flag (calc_flags (Some 4584) at_hard_max ?L)"
    by blast
  from t2 a2 l have w2': "Branch_Limit_Flag (calc_flags (Some 4584) at_hard_max ?L)"
    by simp
  from t3 a3 l have w3: "Branch_Limit_Flag (calc_flags (Some 4584) above_branch_limit ?L)"
    by simp
  from t4 a4 have w4: "\<not> Branch_Limit_Flag (calc_flags (Some 4584) no_amount ?L)
                       \<and> \<not> Loan_Max_Flag (calc_flags (Some 4584) no_amount ?L)"
    by blast
  from a1 w1 a2 w2 w2' a3 w3 a4 w4 show ?thesis by blast
qed


subsection \<open>Bounds of the scores\<close>

lemma uninsured_shortfall_installment:
  "calc_monthly_installment_used uninsured_shortfall = Inr (Some 4584)"
  by (rule override_kept) (simp add: uninsured_shortfall_def baseline_fields)

lemma uninsured_shortfall_ltv: "calc_ltv uninsured_shortfall = Some (10 / 3)"
  by (simp add: calc_ltv_def calc_haircut_def safe_divide_def uninsured_shortfall_def
      baseline_fields)

lemma uninsured_shortfall_score_collateral:
  "calc_score_collateral uninsured_shortfall DEFAULT_LOOKUP_VALUES = - 2"
  by (simp add: calc_score_collateral_def uninsured_shortfall_ltv DEFAULT_LOOKUP_VALUES_def)
    (simp add: uninsured_shortfall_def baseline_fields)

text \<open>
  Claim C2, as stated, fails for the collateral score: the scores are capped from above
  only (\<open>min\<close> with the weight), and the deduction of 2 for uninsured collateral takes a
  tier of 0 to -2. With the default policy, an uninsured movable collateral worth 30000
  against a loan of 50000 (LTV 10/3, above the movable maximum) scores -2.
\<close>

theorem collateral_score_negative:
  "calculate_scorecard uninsured_shortfall DEFAULT_LOOKUP_VALUES DEFAULT_SECTOR_STRESS =
     Inr (scorecard_result (Some 4584) uninsured_shortfall DEFAULT_LOOKUP_VALUES
            DEFAULT_SECTOR_STRESS)
   \<and> score_collateral
         (scorecard_result (Some 4584) uninsured_shortfall DEFAULT_LOOKUP_VALUES
            DEFAULT_SECTOR_STRESS) = - 2
   \<and> 0 < W_CHARACTER DEFAULT_LOOKUP_VALUES
   \<and> 0 < W_CAPACITY DEFAULT_LOOKUP_VALUES
   \<and> 0 < W_CAPITAL DEFAULT_LOOKUP_VALUES
   \<and> 0 < W_COLLATERAL DEFAULT_LOOKUP_VALUES
   \<and> 0 < W_CONDITION DEFAULT_LOOKUP_VALUES"
proof -
  have "calculate_scorecard uninsured_shortfall DEFAULT_LOOKUP_VALUES DEFAULT_SECTOR_STRESS =
     Inr (scorecard_result (Some 4584) uninsured_shortfall DEFAULT_LOOKUP_VALUES
            DEFAULT_SECTOR_STRESS)"
    by (rule calculate_scorecard_returns [OF uninsured_shortfall_installment])
  moreover have "score_collateral
         (scorecard_result (Some 4584) uninsured_shortfall DEFAULT_LOOKUP_VALUES
            DEFAULT_SECTOR_STRESS) = - 2"
    by (simp only: scorecard_result_fields uninsured_shortfall_score_collateral)
  moreover have "0 < W_CHARACTER DEFAULT_LOOKUP_VALUES \<and> 0 < W_CAPACITY DEFAULT_LOOKUP_VALUES
    \<and> 0 < W_CAPITAL DEFAULT_LOOKUP_VALUES \<and> 0 < W_COLLATERAL DEFAULT_LOOKUP_VALUES
    \<and> 0 < W_CONDITION DEFAULT_LOOKUP_VALUES"
    by (simp add: DEFAULT_LOOKUP_VALUES_def)
  ultimately show ?thesis by blast
qed

text \<open>
  Claim C2, amended. For positive weight caps, the Character, Capacity, Capital and
  Conditions scores lie between 0 and their caps; the Collateral score lies between -2
  and its cap, and is not negative unless the collateral is marked uninsured (insured
  status \<open>"No"\<close> with a collateral type other than \<open>"None"\<close>); the total score is the
  sum of the five capped scores clamped to the interval from 1 to 99.
\<close>

theorem category_scores_bounded:
  assumes "calculate_scorecard i l s = Inr r"
    and "0 < W_CHARACTER l" and "0 < W_CAPACITY l" and "0 < W_CAPITAL l"
    and "0 < W_COLLATERAL l" and "0 < W_CONDITION l"
  shows "(0 \<le> score_character r \<and> score_character r \<le> W_CHARACTER l)
         \<and> (0 \<le> score_capacity r \<and> score_capacity r \<le> W_CAPACITY l)
         \<and> (0 \<le> score_capital r \<and> score_capital r \<le> W_CAPITAL l)
         \<and> (- 2 \<le> score_collateral r \<and> score_collateral r \<le> W_COLLATERAL l)
         \<and> (collateral_insured i \<noteq> ''No'' \<or> collateral_type i = ''None''
            \<longrightarrow> 0 \<le> score_collateral r)
         \<and> (0 \<le> score_conditions r \<and> score_conditions r \<le> W_CONDITION l)
         \<and> total_score r =
             max 1 (min 99 (score_character r + score_capacity r + score_capital r
                            + score_collateral r + score_conditions r))
         \<and> (1 \<le> total_score r \<and> total_score r \<le> 99)"
proof -
  from assms(1) obtain m where r: "r = scorecard_result m i l s"
    unfolding calculate_scorecard_Inr by blast
  have "total_score r =
      max 1 (min 99 (score_character r + score_capacity r + score_capital r
                     + score_collateral r + score_conditions r))"
    unfolding r scorecard_result_fields calc_total_score_def by (rule refl)
  moreover have "collateral_insured i \<noteq> ''No'' \<or> collateral_type i = ''None''
            \<longrightarrow> 0 \<le> score_collateral r"
    unfolding r scorecard_result_fields
    using score_collateral_nonneg [OF assms(5)] by blast
  ultimately show ?thesis
    unfolding r scorecard_result_fields
    using score_character_bounds [OF assms(2), of i]
      score_capacity_bounds [OF assms(3), of "calc_stressed_dscr m i s"]
      score_capital_bounds [OF assms(4), of i]
      score_collateral_bounds [OF assms(5), of i]
      score_conditions_bounds [OF assms(6), of i]
      total_score_bounds [of m i l s]
    by blast
qed

theorem category_scores_bounded_witness:
  "calculate_scorecard baseline DEFAULT_LOOKUP_VALUES DEFAULT_SECTOR_STRESS =
     Inr (scorecard_result (Some 4584) baseline DEFAULT_LOOKUP_VALUES DEFAULT_SECTOR_STRESS)
   \<and> 0 < W_CHARACTER DEFAULT_LOOKUP_VALUES
   \<and> 0 < W_CAPACITY DEFAULT_LOOKUP_VALUES
   \<and> 0 < W_CAPITAL DEFAULT_LOOKUP_VALUES
   \<and> 0 < W_COLLATERAL DEFAULT_LOOKUP_VALUES
   \<and> 0 < W_CONDITION DEFAULT_LOOKUP_VALUES
   \<and> collateral_insured baseline \<noteq> ''No''
   \<and> 0 \<le> score_collateral
         (scorecard_result (Some 4584) baseline DEFAULT_LOOKUP_VALUES DEFAULT_SECTOR_STRESS)
   \<and> 1 \<le> total_score
         (scorecard_result (Some 4584) baseline DEFAULT_LOOKUP_VALUES DEFAULT_SECTOR_STRESS)
   \<and> total_score
         (scorecard_result (Some 4584) baseline DEFAULT_LOOKUP_VALUES DEFAULT_SECTOR_STRESS)
       \<le> 99"
proof -
  let ?L = DEFAULT_LOOKUP_VALUES and ?S = DEFAULT_SECTOR_STRESS
  have c: "calculate_scorecard baseline ?L ?S = Inr (scorecard_result (Some 4584) baseline ?L ?S)"
    by (rule calculate_scorecard_returns [OF baseline_installment])
  have w: "0 < W_CHARACTER ?L" "0 < W_CAPACITY ?L" "0 < W_CAPITAL ?L" "0 < W_COLLATERAL ?L"
    "0 < W_CONDITION ?L"
    by (simp_all add: DEFAULT_LOOKUP_VALUES_def)
  have n: "collateral_insured baseline \<noteq> ''No''"
    by (simp add: baseline_fields)
  from category_scores_bounded [OF c w] n c w show ?thesis by blast
qed

subsection \<open>Applications without collateral\<close>

lemma no_collateral_unvalued_installment:
  "calc_monthly_installment_used no_collateral_unvalued = Inr (Some 4584)"
  by (rule override_kept) (simp add: no_collateral_unvalued_def baseline_fields)

lemma scenario_B_installment: "calc_monthly_installment_used scenario_B = Inr (Some 4584)"
  by (rule override_kept) (simp add: scenario_B_def baseline_fields)

text \<open>
  Claim C3, as stated, fails for the LTV: the sentinel 99 is assigned only inside the
  guard that the requested amount and the market value are both present. The data-entry
  form asks for a market value only for movable and immovable collateral, so an
  application with collateral type \<open>"None"\<close> and no market value is an ordinary input,
  and its LTV is null.
\<close>

theorem no_collateral_ltv_null:
  "calculate_scorecard no_collateral_unvalued DEFAULT_LOOKUP_VALUES DEFAULT_SECTOR_STRESS =
     Inr (scorecard_result (Some 4584) no_collateral_unvalued DEFAULT_LOOKUP_VALUES
            DEFAULT_SECTOR_STRESS)
   \<and> collateral_type no_collateral_unvalued = ''None''
   \<and> ltv (scorecard_result (Some 4584) no_collateral_unvalued DEFAULT_LOOKUP_VALUES
            DEFAULT_SECTOR_STRESS) = None"
proof -
  have "calculate_scorecard no_collateral_unvalued DEFAULT_LOOKUP_VALUES
          DEFAULT_SECTOR_STRESS =
     Inr (scorecard_result (Some 4584) no_collateral_unvalued DEFAULT_LOOKUP_VALUES
            DEFAULT_SECTOR_STRESS)"
    by (rule calculate_scorecard_returns [OF no_collateral_unvalued_installment])
  moreover have "collateral_type no_collateral_unvalued = ''None''"
    by (simp add: no_collateral_unvalued_def)
  moreover have "ltv (scorecard_result (Some 4584) no_collateral_unvalued
      DEFAULT_LOOKUP_VALUES DEFAULT_SECTOR_STRESS) = None"
    by (simp add: scorecard_result_fields calc_ltv_def no_collateral_unvalued_def)
  ultimately show ?thesis by blast
qed

text \<open>
  Claim C3, amended. For an application whose collateral type is \<open>"None"\<close>: the LTV is
  the sentinel 99 when the requested amount and the market value are both present, and
  null otherwise; the collateral score is the cap applied to 0, which is 0 for a
  non-negative collateral weight; the message \<open>"REJECT: No Collateral"\<close> is the last
  entry of the triggered-flag list; and the recommendation is \<open>"REJECT"\<close> whatever the
  total score.
\<close>

theorem no_collateral_outcome:
  assumes "calculate_scorecard i l s = Inr r"
    and "collateral_type i = ''None''"
  shows "ltv r = (if requested_loan_amount i \<noteq> None \<and> market_value i \<noteq> None
                  then Some 99 else None)
         \<and> score_collateral r = min (W_COLLATERAL l) 0
         \<and> (0 \<le> W_COLLATERAL l \<longrightarrow> score_collateral r = 0)
         \<and> ''REJECT: No Collateral'' \<in> set (triggered_flags r)
         \<and> last (triggered_flags r) = ''REJECT: No Collateral''
         \<and> recommendation r = ''REJECT''"
proof -
  from assms(1) obtain m where r: "r = scorecard_result m i l s"
    unfolding calculate_scorecard_Inr by blast
  have l: "ltv r = (if requested_loan_amount i \<noteq> None \<and> market_value i \<noteq> None
                    then Some 99 else None)"
    unfolding r scorecard_result_fields calc_ltv_def using assms(2) by simp
  have c: "score_collateral r = min (W_COLLATERAL l) 0"
    unfolding r scorecard_result_fields calc_score_collateral_def using assms(2) by simp
  have t: "triggered_flags r = calc_triggered_flags (calc_flags m i l) i"
    unfolding r scorecard_result_fields by (rule refl)
  have t1: "last (triggered_flags r) = ''REJECT: No Collateral''"
    unfolding t calc_triggered_flags_def using assms(2) by simp
  have t2: "''REJECT: No Collateral'' \<in> set (triggered_flags r)"
    unfolding t calc_triggered_flags_def using assms(2) by simp
  have d: "recommendation r = ''REJECT''"
    unfolding r scorecard_result_fields calc_recommendation_def using assms(2) by simp
  from l c t1 t2 d show ?thesis by simp
qed

theorem no_collateral_outcome_witness:
  "calculate_scorecard scenario_B DEFAULT_LOOKUP_VALUES DEFAULT_SECTOR_STRESS =
     Inr (scorecard_result (Some 4584) scenario_B DEFAULT_LOOKUP_VALUES DEFAULT_SECTOR_STRESS)
   \<and> collateral_type scenario_B = ''None''
   \<and> 0 \<le> W_COLLATERAL DEFAULT_LOOKUP_VALUES
   \<and> ltv (scorecard_result (Some 4584) scenario_B DEFAULT_LOOKUP_VALUES DEFAULT_SECTOR_STRESS)
       = Some 99
   \<and> score_collateral
         (scorecard_result (Some 4584) scenario_B DEFAULT_LOOKUP_VALUES DEFAULT_SECTOR_STRESS)
       = 0
   \<and> recommendation
         (scorecard_result (Some 4584) scenario_B DEFAULT_LOOKUP_VALUES DEFAULT_SECTOR_STRESS)
       = ''REJECT''"
proof -
  let ?L = DEFAULT_LOOKUP_VALUES and ?S = DEFAULT_SECTOR_STRESS
  have c: "calculate_scorecard scenario_B ?L ?S =
      Inr (scorecard_result (Some 4584) scenario_B ?L ?S)"
    by (rule calculate_scorecard_returns [OF scenario_B_installment])
  have n: "collateral_type scenario_B = ''None''"
    by (simp add: scenario_B_def)
  have w: "0 \<le> W_COLLATERAL ?L"
    by (simp add: DEFAULT_LOOKUP_VALUES_def)
  have p: "requested_loan_amount scenario_B \<noteq> None \<and> market_value scenario_B \<noteq> None"
    by (simp add: scenario_B_def baseline_fields)
  from no_collateral_outcome [OF c n] w p c n show ?thesis by simp
qed


subsection \<open>Rounding to double at the values used below\<close>

lemma round_double_zero: "round_double 0 = 0"
  by (simp add: round_double_def)

lemma round_half_even_of_int: "round_half_even (of_int k) = k"
  by (simp add: round_half_even_def)

lemma round_double_binade:
  assumes "2 powi e \<le> \<bar>x\<bar>" and "\<bar>x\<bar> < 2 powi (e + 1)" and "- 1022 \<le> e"
  shows "round_double x = of_int (round_half_even (x / 2 powi (e - 52))) * 2 powi (e - 52)"
proof -
  have pos: "0 < \<bar>x\<bar>"
    using assms(1) zero_less_power_int [of "2 :: real" e] by linarith
  have "(2 :: real) powr of_int e \<le> \<bar>x\<bar> \<and> \<bar>x\<bar> < 2 powr (of_int e + 1)"
    using assms(1,2) powr_real_of_int' [of "2 :: real" e] powr_real_of_int' [of "2 :: real" "e + 1"]
    by simp
  then have "\<lfloor>log 2 \<bar>x\<bar>\<rfloor> = e"
    using floor_log_eq_powr_iff [OF pos, of 2 e] by simp
  moreover have "max (e - 52) (- 1074) = e - 52"
    using assms(3) by simp
  moreover from pos have "x \<noteq> 0" by simp
  ultimately show ?thesis
    by (simp add: round_double_def Let_def)
qed

lemma round_double_exact:
  assumes "2 powi e \<le> \<bar>x\<bar>" and "\<bar>x\<bar> < 2 powi (e + 1)" and "- 1022 \<le> e"
    and "x / 2 powi (e - 52) = of_int k"
  shows "round_double x = x"
proof -
  have "round_double x = of_int k * 2 powi (e - 52)"
    unfolding round_double_binade [OF assms(1,2,3)] assms(4) round_half_even_of_int
    by (rule refl)
  also have "\<dots> = x / 2 powi (e - 52) * 2 powi (e - 52)"
    by (simp only: assms(4))
  also have "\<dots> = x"
    by simp
  finally show ?thesis .
qed

lemma round_double_values:
  "round_double 1 = 1"
  "round_double (- 1) = - 1"
  "round_double (- 2) = - 2"
  "round_double (- 12) = - 12"
  "round_double (- 24) = - 24"
proof -
  show "round_double 1 = 1"
    by (rule round_double_exact [where e = 0 and k = "2 ^ 52"]) simp_all
  show "round_double (- 1) = - 1"
    by (rule round_double_exact [where e = 0 and k = "- (2 ^ 52)"]) simp_all
  show "round_double (- 2) = - 2"
    by (rule round_double_exact [where e = 1 and k = "- (2 ^ 52)"]) simp_all
  show "round_double (- 12) = - 12"
    by (rule round_double_exact [where e = 3 and k = "- (3 * 2 ^ 51)"]) simp_all
  show "round_double (- 24) = - 24"
    by (rule round_double_exact [where e = 4 and k = "- (3 * 2 ^ 51)"]) simp_all
qed

lemma round_double_tiny:
  "round_double (1200 / 2 ^ 60 / 100) = 12 / 2 ^ 60"
  "round_double (12 / 2 ^ 60 / 12) = 1 / 2 ^ 60"
  "round_double (1 + 1 / 2 ^ 60) = 1"
proof -
  have a: "(1200 / 2 ^ 60 / 100 :: real) = 12 / 2 ^ 60"
    by simp
  have "round_double (12 / 2 ^ 60) = 12 / 2 ^ 60"
    by (rule round_double_exact [where e = "- 57" and k = "3 * 2 ^ 51"]) simp_all
  then show "round_double (1200 / 2 ^ 60 / 100) = 12 / 2 ^ 60"
    by (simp only: a)
  have b: "(12 / 2 ^ 60 / 12 :: real) = 1 / 2 ^ 60"
    by simp
  have "round_double (1 / 2 ^ 60) = 1 / 2 ^ 60"
    by (rule round_double_exact [where e = "- 60" and k = "2 ^ 52"]) simp_all
  then show "round_double (12 / 2 ^ 60 / 12) = 1 / 2 ^ 60"
    by (simp only: b)
  have "round_double (1 + 1 / 2 ^ 60) =
      of_int (round_half_even ((1 + 1 / 2 ^ 60) / 2 powi (0 - 52))) * 2 powi (0 - 52)"
    by (rule round_double_binade) simp_all
  also have "round_half_even ((1 + 1 / 2 ^ 60) / 2 powi (0 - 52)) = 2 ^ 52"
    by (simp add: round_half_even_def)
  finally show "round_double (1 + 1 / 2 ^ 60) = 1"
    by simp
qed


subsection \<open>Installment sizing\<close>

lemma pmt_zero_rate:
  "pmt 0 periods pv =
     Inr (if periods = 0 then None else Some (round_double (pv / periods)))"
  by (simp add: pmt_def)

lemma pmt_zero_periods: "pmt rate 0 pv = Inr None"
  by (simp add: pmt_def)

text \<open>
  The branches of the installment that do not reach the amortization formula: the
  override, an incomplete triad, a zero term, and a monthly rate that is zero as the
  program computes it.
\<close>

lemma installment_outside_formula:
  "monthly_installment_override i = Some v \<Longrightarrow>
     calc_monthly_installment_used i = Inr (Some v)"
  "monthly_installment_override i = None \<Longrightarrow>
     requested_loan_amount i = None \<or> term_months i = None \<or> annual_interest_rate i = None \<Longrightarrow>
     calc_monthly_installment_used i = Inr None"
  "monthly_installment_override i = None \<Longrightarrow> requested_loan_amount i = Some p \<Longrightarrow>
     term_months i = Some 0 \<Longrightarrow> annual_interest_rate i = Some a \<Longrightarrow>
     calc_monthly_installment_used i = Inr None"
  "monthly_installment_override i = None \<Longrightarrow> requested_loan_amount i = Some p \<Longrightarrow>
     term_months i = Some n \<Longrightarrow> annual_interest_rate i = Some a \<Longrightarrow> n \<noteq> 0 \<Longrightarrow>
     round_double (round_double (a / 100) / 12) = 0 \<Longrightarrow>
     calc_monthly_installment_used i = Inr (Some (round_double (p / n)))"
proof -
  show "monthly_installment_override i = Some v \<Longrightarrow>
      calc_monthly_installment_used i = Inr (Some v)"
    by (rule override_kept)
  show "monthly_installment_override i = None \<Longrightarrow>
      requested_loan_amount i = None \<or> term_months i = None \<or> annual_interest_rate i = None \<Longrightarrow>
      calc_monthly_installment_used i = Inr None"
    by (auto simp add: calc_monthly_installment_used_def)
  show "monthly_installment_override i = None \<Longrightarrow> requested_loan_amount i = Some p \<Longrightarrow>
      term_months i = Some 0 \<Longrightarrow> annual_interest_rate i = Some a \<Longrightarrow>
      calc_monthly_installment_used i = Inr None"
    by (simp add: calc_monthly_installment_used_def pmt_zero_periods)
  show "monthly_installment_override i = None \<Longrightarrow> requested_loan_amount i = Some p \<Longrightarrow>
      term_months i = Some n \<Longrightarrow> annual_interest_rate i = Some a \<Longrightarrow> n \<noteq> 0 \<Longrightarrow>
      round_double (round_double (a / 100) / 12) = 0 \<Longrightarrow>
      calc_monthly_installment_used i = Inr (Some (round_double (p / n)))"
    by (simp add: calc_monthly_installment_used_def pmt_zero_rate)
qed

subsection \<open>Exceptions of the installment formula\<close>

lemma rate_minus_2400_installment:
  "calc_monthly_installment_used rate_minus_2400 = Inl ZeroDivisionError"
proof -
  have p: "math_pow (round_double (1 + - 2)) (- 2) = Inr 1"
    by (simp add: round_double_values math_pow_def pow_result_def DBL_OVERFLOW_def
        power_int_def)
  have "pmt (- 2) 2 50000 = Inl ZeroDivisionError"
    unfolding pmt_def p by (simp add: round_double_zero)
  then show ?thesis
    by (simp add: calc_monthly_installment_used_def rate_minus_2400_def baseline_fields
        round_double_values)
qed

lemma rate_minus_1200_installment:
  "calc_monthly_installment_used rate_minus_1200 = Inl ValueError"
proof -
  have p: "math_pow (round_double (1 + - 1)) (- 12) = Inl ValueError"
    by (simp add: round_double_zero math_pow_def)
  have "pmt (- 1) 12 50000 = Inl ValueError"
    unfolding pmt_def p by simp
  then show ?thesis
    by (simp add: calc_monthly_installment_used_def rate_minus_1200_def baseline_fields
        round_double_values)
qed

lemma tiny_rate_installment:
  "calc_monthly_installment_used tiny_rate = Inl ZeroDivisionError"
proof -
  have m: "round_double (round_double (1200 / 2 ^ 60 / 100) / 12) = 1 / 2 ^ 60"
    by (simp only: round_double_tiny)
  have z: "(1 / 2 ^ 60 :: real) \<noteq> 0"
    by simp
  have "math_pow 1 (- 12) = Inr 1"
    by (simp add: round_double_values math_pow_def pow_result_def DBL_OVERFLOW_def)
  then have p: "math_pow (round_double (1 + 1 / 2 ^ 60)) (- 12) = Inr 1"
    by (simp only: round_double_tiny)
  have v: "pmt (1 / 2 ^ 60) 12 50000 = Inl ZeroDivisionError"
    unfolding pmt_def p using z by (simp add: round_double_zero)
  have u: "calc_monthly_installment_used tiny_rate =
      pmt (round_double (round_double (1200 / 2 ^ 60 / 100) / 12)) 12 50000"
    by (simp add: calc_monthly_installment_used_def tiny_rate_def baseline_fields)
  show ?thesis
    by (simp only: u m v)
qed

text \<open>
  Claim C4 says that \<open>calculate_scorecard\<close> returns for every application, negative
  rates included, and that \<open>pmt\<close> is total. It is not: \<open>pmt\<close> guards a zero rate and a
  zero term, but neither the call of \<open>math.pow\<close> nor its own final division. With no
  override, an annual rate of -2400 percent over 2 months gives a monthly rate of -2 and
  \<open>math.pow(-1.0, -2.0) = 1.0\<close>, so the division by \<open>1 - 1.0\<close> raises
  \<open>ZeroDivisionError\<close>; an annual rate of -1200 percent gives a monthly rate of -1 and
  \<open>math.pow(0.0, -12.0)\<close> raises \<open>ValueError\<close>.
\<close>

theorem pmt_raises:
  "calculate_scorecard rate_minus_2400 DEFAULT_LOOKUP_VALUES DEFAULT_SECTOR_STRESS =
     Inl ZeroDivisionError
   \<and> calculate_scorecard rate_minus_1200 DEFAULT_LOOKUP_VALUES DEFAULT_SECTOR_STRESS =
       Inl ValueError"
  using calculate_scorecard_raises [OF rate_minus_2400_installment]
    calculate_scorecard_raises [OF rate_minus_1200_installment]
  by simp

text \<open>
  Claim C5 says that, with no override and the triad present, a non-zero monthly rate
  and a non-zero term give the installment \<open>p \<cdot> rate / (1 - (1 + rate)^(-n))\<close>. The
  code does not always produce it. With no override, amount 50000, term 12 and an
  annual rate of \<open>1200 \<cdot> 2^(-60)\<close> percent the monthly rate is \<open>2^(-60)\<close>, which is
  not zero, and the closed form denotes a number (its divisor is positive); but the
  float sum \<open>1 + rate\<close> is \<open>1.0\<close>, \<open>math.pow(1.0, -12.0)\<close> is \<open>1.0\<close>, and the
  unguarded division by \<open>1 - 1.0\<close> raises \<open>ZeroDivisionError\<close>: no installment is
  returned.
\<close>

theorem tiny_rate_raises:
  "monthly_installment_override tiny_rate = None
   \<and> requested_loan_amount tiny_rate = Some 50000
   \<and> term_months tiny_rate = Some 12
   \<and> annual_interest_rate tiny_rate = Some (1200 / 2 ^ 60)
   \<and> (1200 / 2 ^ 60 / 100 / 12 :: real) = 1 / 2 ^ 60
   \<and> (0 :: real) < 1 - (1 + 1 / 2 ^ 60) powr (- 12)
   \<and> calculate_scorecard tiny_rate DEFAULT_LOOKUP_VALUES DEFAULT_SECTOR_STRESS =
       Inl ZeroDivisionError"
proof -
  have f: "monthly_installment_override tiny_rate = None
      \<and> requested_loan_amount tiny_rate = Some 50000
      \<and> term_months tiny_rate = Some 12
      \<and> annual_interest_rate tiny_rate = Some (1200 / 2 ^ 60)"
    by (simp add: tiny_rate_def baseline_fields)
  have r: "(1200 / 2 ^ 60 / 100 / 12 :: real) = 1 / 2 ^ 60"
    by simp
  have "(1 :: real) ^ 12 < (1 + 1 / 2 ^ 60) ^ 12"
    by (rule power_strict_mono) simp_all
  then have "(1 + 1 / 2 ^ 60 :: real) powr (- 12) < 1"
    by (simp add: powr_minus inverse_less_1_iff)
  then have d: "(0 :: real) < 1 - (1 + 1 / 2 ^ 60) powr (- 12)"
    by simp
  from f r d calculate_scorecard_raises [OF tiny_rate_installment] show ?thesis
    by blast
qed

text \<open>
  The overflow of \<open>math.pow\<close> is reachable as well: an annual rate of -600 percent is a
  monthly rate of -0.5, and over 2000 months \<open>math.pow(0.5, -2000.0)\<close> is \<open>2^2000\<close>.
\<close>

lemma pmt_overflows: "pmt (- (1 / 2)) 2000 pv = Inl OverflowError"
proof -
  have h: "round_double (1 / 2) = 1 / 2"
    by (rule round_double_exact [where e = "- 1" and k = "2 ^ 52"]) simp_all
  have "(1 / 2 :: real) powr (- 2000) = 2 ^ 2000"
    by (simp add: powr_minus power_divide)
  moreover have "DBL_OVERFLOW \<le> 2 ^ 2000"
    by (simp add: DBL_OVERFLOW_def)
  ultimately have "math_pow (round_double (1 + - (1 / 2))) (- 2000) = Inl OverflowError"
    by (simp add: h math_pow_def pow_result_def)
  then show ?thesis
    unfolding pmt_def by simp
qed


subsection \<open>Risk band\<close>

lemma risk_band_steps:
  "risk_band x =
     (if 85 \<le> x then ''Very Low Risk''
      else if 70 \<le> x then ''Low Risk''
      else if 55 \<le> x then ''Moderate Risk''
      else if 40 \<le> x then ''High Risk''
      else ''Very High Risk'')"
  by (simp add: risk_band_def RISK_BANDS_def)

lemma risk_level_band:
  "risk_level (risk_band x) =
     (if 85 \<le> x then 0
      else if 70 \<le> x then 1
      else if 55 \<le> x then 2
      else if 40 \<le> x then 3
      else 4)"
  by (simp add: risk_band_steps risk_level_def)

lemma risk_band_antimono:
  assumes "x \<le> y"
  shows "risk_level (risk_band y) \<le> risk_level (risk_band x)"
proof -
  consider "85 \<le> x" | "70 \<le> x" "x < 85" | "55 \<le> x" "x < 70" | "40 \<le> x" "x < 55"
    | "x < 40"
    by linarith
  then show ?thesis
  proof cases
    case 1
    with assms have "85 \<le> y" by linarith
    with 1 show ?thesis by (simp add: risk_level_band)
  next
    case 2
    with assms have "70 \<le> y" by linarith
    with 2 show ?thesis by (simp add: risk_level_band)
  next
    case 3
    with assms have "55 \<le> y" by linarith
    with 3 show ?thesis by (simp add: risk_level_band)
  next
    case 4
    with assms have "40 \<le> y" by linarith
    with 4 show ?thesis by (simp add: risk_level_band)
  next
    case 5
    then show ?thesis by (simp add: risk_level_band)
  qed
qed

lemma risk_band_floor_match:
  assumes "1 \<le> x"
  shows "\<exists>t. (t, risk_band x) \<in> set RISK_BANDS \<and> t \<le> x
             \<and> (\<forall>(t', b') \<in> set RISK_BANDS. t' \<le> x \<longrightarrow> t' \<le> t)"
proof -
  consider "85 \<le> x" | "70 \<le> x" "x < 85" | "55 \<le> x" "x < 70" | "40 \<le> x" "x < 55"
    | "1 \<le> x" "x < 40"
    using assms by linarith
  then show ?thesis
  proof cases
    case 1
    then show ?thesis
      by (intro exI [of _ 85]) (simp add: risk_band_steps RISK_BANDS_def)
  next
    case 2
    then show ?thesis
      by (intro exI [of _ 70]) (simp add: risk_band_steps RISK_BANDS_def)
  next
    case 3
    then show ?thesis
      by (intro exI [of _ 55]) (simp add: risk_band_steps RISK_BANDS_def)
  next
    case 4
    then show ?thesis
      by (intro exI [of _ 40]) (simp add: risk_band_steps RISK_BANDS_def)
  next
    case 5
    then show ?thesis
      by (intro exI [of _ 1]) (simp add: risk_band_steps RISK_BANDS_def)
  qed
qed

text \<open>
  Claim C7. \<open>risk_band\<close> is a monotone step function of the total score. For every
  score \<open>x\<close> from 1 to 99 it returns the band of \<open>RISK_BANDS\<close> whose threshold is the
  highest one that is at most \<open>x\<close>; these are the five bands with thresholds 85, 70, 55,
  40 and 1; and for \<open>x \<le> y\<close> the band of \<open>x\<close> is never a lower-risk label than the
  band of \<open>y\<close>.
\<close>

theorem risk_band_step_function:
  "(1 \<le> x \<and> x \<le> 99 \<longrightarrow>
      (\<exists>t. (t, risk_band x) \<in> set RISK_BANDS \<and> t \<le> x
           \<and> (\<forall>(t', b') \<in> set RISK_BANDS. t' \<le> x \<longrightarrow> t' \<le> t)))
   \<and> risk_band x =
        (if 85 \<le> x then ''Very Low Risk''
         else if 70 \<le> x then ''Low Risk''
         else if 55 \<le> x then ''Moderate Risk''
         else if 40 \<le> x then ''High Risk''
         else ''Very High Risk'')
   \<and> (x \<le> y \<longrightarrow> risk_level (risk_band y) \<le> risk_level (risk_band x))"
  using risk_band_floor_match [of x] risk_band_steps [of x] risk_band_antimono [of x y]
  by blast

theorem risk_band_step_function_witness:
  "(1 :: real) \<le> 51 \<and> (51 :: real) \<le> 99 \<and> (51 :: real) \<le> 85
   \<and> risk_band 51 = ''High Risk''
   \<and> (40, ''High Risk'') \<in> set RISK_BANDS
   \<and> risk_band 85 = ''Very Low Risk''
   \<and> risk_level (risk_band 85) \<le> risk_level (risk_band 51)"
proof -
  note t = risk_band_step_function [of 51 85]
  from t have b: "risk_band 51 = ''High Risk''"
    by simp
  have le: "(51 :: real) \<le> 85"
    by simp
  from t le have o: "risk_level (risk_band 85) \<le> risk_level (risk_band 51)"
    by blast
  from t obtain th where m: "(th, risk_band 51) \<in> set RISK_BANDS" and "th \<le> 51"
    by auto
  from m have "th = 40"
    unfolding b by (simp add: RISK_BANDS_def)
  with m b have k: "(40, ''High Risk'') \<in> set RISK_BANDS"
    by simp
  have v: "risk_band 85 = ''Very Low Risk''"
    by (simp add: risk_band_steps)
  from b k v o show ?thesis by simp
qed


end
